theory Spec2Isabelle
  imports Main
begin

section \<open>The block state generator \<^verbatim>\<open>scripts/blocks.py\<close>\<close>

text \<open>
  The script reads the vanilla server's \<^verbatim>\<open>blocks.json\<close> report and produces Rust source text.
  It is Python 2 (\<^verbatim>\<open>iteritems\<close>), and \<^verbatim>\<open>json.load\<close> returns \<^verbatim>\<open>unicode\<close> strings: a
  Python string is a sequence of code points. The model uses \<^typ>\<open>string\<close>, a
  \<^typ>\<open>char\<close> standing for the code point of the same number, so it covers the documents
  whose strings stay below code point 256. Digits are classified as \<^verbatim>\<open>unicode.isdigit\<close>
  does there. Case conversion is modelled for the ASCII letters, which is what the
  report contains; a statement about every input that depends on the class of a
  character is made for ASCII strings (\<open>ascii_string\<close>).
\<close>

subsection \<open>Python string primitives\<close>

text \<open>\<^verbatim>\<open>s.split(sep)\<close> for a one-character separator: never returns the empty list.\<close>

fun py_split :: "char \<Rightarrow> string \<Rightarrow> string list" where
  "py_split sep [] = [[]]"
| "py_split sep (c # cs) =
     (if c = sep then [] # py_split sep cs
      else (case py_split sep cs of
              [] \<Rightarrow> [[c]]
            | w # ws \<Rightarrow> (c # w) # ws))"

definition islower :: "char \<Rightarrow> bool" where
  "islower c = (97 \<le> (of_char c :: nat) \<and> (of_char c :: nat) \<le> 122)"

definition isupper :: "char \<Rightarrow> bool" where
  "isupper c = (65 \<le> (of_char c :: nat) \<and> (of_char c :: nat) \<le> 90)"

text \<open>
  The code points below 256 that \<^verbatim>\<open>unicode.isdigit\<close> accepts: the ASCII digits and the
  superscript digits two, three and one (178, 179 and 185).
\<close>

definition isdigit_char :: "char \<Rightarrow> bool" where
  "isdigit_char c =
     ((48 \<le> (of_char c :: nat) \<and> (of_char c :: nat) \<le> 57)
      \<or> (of_char c :: nat) = 178 \<or> (of_char c :: nat) = 179 \<or> (of_char c :: nat) = 185)"

definition upper :: "char \<Rightarrow> char" where
  "upper c = (if islower c then char_of ((of_char c :: nat) - 32) else c)"

definition lower :: "char \<Rightarrow> char" where
  "lower c = (if isupper c then char_of ((of_char c :: nat) + 32) else c)"

text \<open>
  \<^verbatim>\<open>s.title()\<close>: a cased character is upper-cased when the character before it is not
  cased (or there is none) and lower-cased otherwise; other characters are kept.
  The flag is CPython's \<^verbatim>\<open>previous_is_cased\<close>.
\<close>

fun title_from :: "bool \<Rightarrow> string \<Rightarrow> string" where
  "title_from previous_is_cased [] = []"
| "title_from previous_is_cased (c # cs) =
     (if islower c then (if previous_is_cased then c else upper c) # title_from True cs
      else if isupper c then (if previous_is_cased then lower c else c) # title_from True cs
      else c # title_from False cs)"

definition title :: "string \<Rightarrow> string" where
  "title s = title_from False s"

text \<open>\<^verbatim>\<open>s.isdigit()\<close>: at least one character, and all of them digits.\<close>

definition isdigit :: "string \<Rightarrow> bool" where
  "isdigit s = (s \<noteq> [] \<and> list_all isdigit_char s)"

text \<open>The strings made of ASCII characters only.\<close>

definition ascii_string :: "string \<Rightarrow> bool" where
  "ascii_string s = list_all (\<lambda>c. (of_char c :: nat) < 128) s"

text \<open>\<^verbatim>\<open>str(i)\<close> of a Python integer.\<close>

fun string_of_nat :: "nat \<Rightarrow> string" where
  "string_of_nat n =
     (if n < 10 then [char_of (48 + n)]
      else string_of_nat (n div 10) @ [char_of (48 + n mod 10)])"

declare string_of_nat.simps [simp del]

definition str_int :: "int \<Rightarrow> string" where
  "str_int i = (if i < 0 then CHR ''-'' # string_of_nat (nat (- i)) else string_of_nat (nat i))"

subsection \<open>Constants and helper functions of the script\<close>

definition KEYWORDS :: "string list" where
  "KEYWORDS = [''type'', ''in'']"

definition KNOWN_PROPERTIES :: "string list" where
  "KNOWN_PROPERTIES = [''facing'', ''axis'', ''half'', ''face'', ''shape'', ''hinge'', ''part'']"

definition DERIVES :: string where
  "DERIVES = ''#[derive(Debug, Clone, Copy, PartialEq, Eq, Hash)]\<newline>''"

definition strip_minecraft_identifier :: "string \<Rightarrow> string" where
  "strip_minecraft_identifier s = drop 10 s"

definition snake_to_upper_camel :: "string \<Rightarrow> string" where
  "snake_to_upper_camel s = concat (map title (py_split CHR ''_'' s))"

definition get_type_from_value :: "string \<Rightarrow> string" where
  "get_type_from_value val =
     (if val = ''true'' \<or> val = ''false'' then ''bool''
      else if isdigit val then ''i32''
      else ''_enum'')"

definition process_property_name :: "string \<Rightarrow> string" where
  "process_property_name s = (if s \<in> set KEYWORDS then s @ ''_'' else s)"

subsection \<open>The input document\<close>

text \<open>
  \<^verbatim>\<open>json.load(fin, object_pairs_hook=OrderedDict)\<close> gives ordered dictionaries, modelled as
  association lists in document order. The document has the shape of \<^verbatim>\<open>blocks.json\<close>: a
  dictionary from block identifiers to objects with a \<^verbatim>\<open>states\<close> list and a
  \<^verbatim>\<open>properties\<close> dictionary of value lists; a state has an \<^verbatim>\<open>id\<close> and a
  \<^verbatim>\<open>properties\<close> dictionary. Every key may be absent (\<open>None\<close>); subscripting it
  then raises \<^verbatim>\<open>KeyError\<close>. Property values are JSON strings, identifiers are integers.
\<close>

type_synonym 'v ordered_dict = "(string \<times> 'v) list"

record block_state =
  state_id :: "int option"
  state_properties :: "string ordered_dict option"

record block =
  properties :: "string list ordered_dict option"
  states :: "block_state list option"

type_synonym blocks = "block ordered_dict"

datatype py_error =
    KeyError string
  | IndexError
  | IOError
  | ValueError
  | UnicodeEncodeError

subsection \<open>The code buffers\<close>

record gen_state =
  enum_code :: string
  block_state_id_code :: string
  from_block_state_id_code :: string
  state_code :: string
  end_code :: string
  name_code :: string
  property_names_code :: string

definition initial_end_code :: string where
  "initial_end_code =
     DERIVES @ ''pub enum Facing {North, South, East, West, Up, Down, }\<newline>\<newline>''
   @ DERIVES @ ''pub enum Axis {X, Y, Z, }\<newline>\<newline>''
   @ DERIVES @ ''pub enum Half {Upper, Lower, Top, Bottom, }\<newline>\<newline>''
   @ DERIVES @ ''pub enum Face {Floor, Wall, Ceiling, }\<newline>\<newline>''
   @ DERIVES @ ''pub enum Shape {Straight, InnerLeft, InnerRight, OuterLeft, OuterRight, AscendingNorth, AscendingEast, AscendingSouth, AscendingWest, NorthEast, NorthWest, SouthEast, SouthWest, NorthSouth, EastWest,\<newline>\<newline>}''
   @ DERIVES @ ''pub enum Hinge {Left, Right, }\<newline>\<newline>''
   @ DERIVES @ ''pub enum Part {Head, Foot, }\<newline>\<newline>''"

definition initial_state :: gen_state where
  "initial_state =
     \<lparr> enum_code = DERIVES @ ''pub enum Block {\<newline>'',
       block_state_id_code = ''pub fn block_state_id(&self) -> u16 {\<newline>match self {'',
       from_block_state_id_code = ''pub fn from_block_state_id(id: u16) -> Self {\<newline>match id {'',
       state_code = '''',
       end_code = initial_end_code,
       name_code = ''pub fn name(&self) -> &'static str {\<newline>match self {\<newline>'',
       property_names_code =
         ''pub fn property_names(&self) -> HashMap<&'static str, &'static str> {\<newline>''
         @ ''let mut m = HashMap::new();\<newline>''
         @ ''match self {\<newline>'' \<rparr>"

subsection \<open>The loop over the properties of a block (lines 170 to 196)\<close>

text \<open>
  The type written for the field of \<open>prop_name\<close>: the type of the first value of the
  domain, replaced by the pre-created enum for a known property, and by a fresh enum
  name when it is still \<^verbatim>\<open>_enum\<close>.
\<close>

definition prop_type :: "string \<Rightarrow> string \<Rightarrow> string list \<Rightarrow> py_error + string" where
  "prop_type camel prop_name vals =
     (case vals of
        [] \<Rightarrow> Inl IndexError
      | v0 # _ \<Rightarrow>
          (let ty = get_type_from_value v0;
               ty = (if prop_name \<in> set KNOWN_PROPERTIES
                     then snake_to_upper_camel prop_name else ty)
           in Inr (if ty = ''_enum'' then camel @ snake_to_upper_camel prop_name else ty)))"

text \<open>Whether the loop body creates an enum for the property (the test of line 177).\<close>

definition creates_enum :: "string \<Rightarrow> string list \<Rightarrow> bool" where
  "creates_enum prop_name vals =
     ((if prop_name \<in> set KNOWN_PROPERTIES
       then snake_to_upper_camel prop_name
       else get_type_from_value (hd vals)) = ''_enum'')"

definition prop_step :: "string \<Rightarrow> string \<Rightarrow> string list \<Rightarrow> gen_state \<Rightarrow> py_error + gen_state" where
  "prop_step camel prop_name vals st =
     (case prop_type camel prop_name vals of
        Inl e \<Rightarrow> Inl e
      | Inr ty \<Rightarrow>
          (let st = (if creates_enum prop_name vals
                     then st\<lparr>end_code := end_code st
                            @ DERIVES @ ''pub enum '' @ ty @ '' {''
                            @ concat (map (\<lambda>val. snake_to_upper_camel val @ '',\<newline>'') vals)
                            @ ''}\<newline>\<newline>''\<rparr>
                     else st);
               prop_name = process_property_name prop_name
           in Inr (st\<lparr>state_code := state_code st
                        @ ''pub '' @ prop_name @ '': '' @ ty @ '',\<newline>'',
                      property_names_code := property_names_code st
                        @ ''m.insert(\"'' @ prop_name @ ''\", (&format!(\"{:?}\", data.''
                        @ prop_name @ '')).to_snake_case().as_str());''\<rparr>)))"

fun props_loop :: "string \<Rightarrow> string list ordered_dict \<Rightarrow> gen_state \<Rightarrow> py_error + gen_state" where
  "props_loop camel [] st = Inr st"
| "props_loop camel ((prop_name, vals) # props) st =
     (case prop_step camel prop_name vals st of
        Inl e \<Rightarrow> Inl e
      | Inr st' \<Rightarrow> props_loop camel props st')"

subsection \<open>The loop over the states of a block (lines 205 to 232)\<close>

text \<open>The Rust expression written for one property value of a state (lines 214 to 221).\<close>

definition rust_prop_val :: "string \<Rightarrow> string \<Rightarrow> string \<Rightarrow> string" where
  "rust_prop_val camel prop_name prop_val =
     (if get_type_from_value prop_val = ''_enum''
      then (if prop_name \<in> set KNOWN_PROPERTIES
            then snake_to_upper_camel prop_name
            else camel @ snake_to_upper_camel prop_name)
           @ ''::'' @ snake_to_upper_camel prop_val
      else prop_val)"

text \<open>
  The inner loop carries \<open>count\<close> and the two buffers it appends to:
  \<open>state_if_code\<close> and \<open>from_block_state_id_code\<close>.
\<close>

fun state_props_loop ::
  "string \<Rightarrow> string ordered_dict \<Rightarrow> nat \<times> string \<times> string \<Rightarrow> nat \<times> string \<times> string" where
  "state_props_loop camel [] acc = acc"
| "state_props_loop camel ((prop_name, prop_val) # rest) (count, state_if_code, from_code) =
     (let prop_val = rust_prop_val camel prop_name prop_val;
          state_if_code = (if count \<noteq> 0 then state_if_code @ '' && '' else state_if_code);
          state_if_code = state_if_code @ ''data.'' @ process_property_name prop_name
                          @ '' == '' @ prop_val;
          from_code = from_code @ process_property_name prop_name @ '': '' @ prop_val
                      @ '',\<newline>''
      in state_props_loop camel rest (count + 1, state_if_code, from_code))"

definition state_step ::
  "string \<Rightarrow> block_state \<Rightarrow> string \<times> string \<Rightarrow> py_error + string \<times> string" where
  "state_step camel state acc =
     (case acc of (state_if_code, from_code) \<Rightarrow>
      (let state_if_code = state_if_code @ ''if ''
       in case state_properties state of
            None \<Rightarrow> Inl (KeyError ''properties'')
          | Some state_props \<Rightarrow>
             (case state_id state of
                None \<Rightarrow> Inl (KeyError ''id'')
              | Some i \<Rightarrow>
                 (let from_code = from_code @ str_int i @ '' => {\<newline>return Block::''
                                  @ camel @ ''('' @ camel @ ''Data {''
                  in case state_props_loop camel state_props (0, state_if_code, from_code) of
                       (count, state_if_code, from_code) \<Rightarrow>
                         Inr (state_if_code @ ''{\<newline>return '' @ str_int i @ '';\<newline>}\<newline>'',
                              from_code @ ''});\<newline>},\<newline>'')))))"

fun states_loop ::
  "string \<Rightarrow> block_state list \<Rightarrow> string \<times> string \<Rightarrow> py_error + string \<times> string" where
  "states_loop camel [] acc = Inr acc"
| "states_loop camel (state # rest) acc =
     (case state_step camel state acc of
        Inl e \<Rightarrow> Inl e
      | Inr acc' \<Rightarrow> states_loop camel rest acc')"

subsection \<open>The loop over the blocks (lines 138 to 236)\<close>

definition block_step :: "string \<Rightarrow> block \<Rightarrow> gen_state \<Rightarrow> py_error + gen_state" where
  "block_step block_identifier obj st =
     (let block_name = strip_minecraft_identifier block_identifier
      in case states obj of
           None \<Rightarrow> Inl (KeyError ''states'')
         | Some sts \<Rightarrow>
            (let single_state = (length sts = 1);
                 camel = snake_to_upper_camel block_name;
                 st = st\<lparr>name_code := name_code st @ ''Block::'' @ camel
                          @ (if \<not> single_state then ''(_)'' else '''')
                          @ '' => \"'' @ block_identifier @ ''\",\<newline>''\<rparr>
             in if single_state then
                  (case state_id (hd sts) of
                     None \<Rightarrow> Inl (KeyError ''id'')
                   | Some i \<Rightarrow>
                      Inr (st\<lparr>enum_code := enum_code st @ camel @ '',\<newline>'',
                              block_state_id_code := block_state_id_code st
                                @ ''Block::'' @ camel @ '' => return '' @ str_int i @ '',\<newline>'',
                              from_block_state_id_code := from_block_state_id_code st
                                @ str_int i @ '' => return Block::'' @ camel @ '',\<newline>''\<rparr>))
                else
                  (let data_struct_name = camel @ ''Data'';
                       st = st\<lparr>state_code := state_code st @ DERIVES @ ''pub struct ''
                                  @ data_struct_name @ '' {'',
                                property_names_code := property_names_code st
                                  @ ''Block::'' @ camel @ ''(data) => {\<newline>''\<rparr>
                   in case properties obj of
                        None \<Rightarrow> Inl (KeyError ''properties'')
                      | Some props \<Rightarrow>
                         (case props_loop camel props st of
                            Inl e \<Rightarrow> Inl e
                          | Inr st \<Rightarrow>
                             (let st = st\<lparr>state_code := state_code st @ ''}\<newline>\<newline>'',
                                          property_names_code := property_names_code st
                                            @ ''},\<newline>'',
                                          enum_code := enum_code st @ camel @ ''(''
                                            @ data_struct_name @ ''),\<newline>''\<rparr>
                              in case states_loop camel sts ('''', from_block_state_id_code st) of
                                   Inl e \<Rightarrow> Inl e
                                 | Inr (state_if_code, from_code) \<Rightarrow>
                                     Inr (st\<lparr>from_block_state_id_code := from_code,
                                             block_state_id_code := block_state_id_code st
                                               @ ''Block::'' @ camel @ ''(data) => {\<newline>''
                                               @ state_if_code @ ''\<newline>}''\<rparr>))))))"

fun blocks_loop :: "blocks \<Rightarrow> gen_state \<Rightarrow> py_error + gen_state" where
  "blocks_loop [] st = Inr st"
| "blocks_loop ((block_identifier, obj) # rest) st =
     (case block_step block_identifier obj st of
        Inl e \<Rightarrow> Inl e
      | Inr st' \<Rightarrow> blocks_loop rest st')"

subsection \<open>After the loop (lines 239 to 281)\<close>

definition finish :: "gen_state \<Rightarrow> gen_state" where
  "finish st =
     st\<lparr>enum_code := enum_code st @ ''}'',
        from_block_state_id_code := from_block_state_id_code st
          @ ''_ => panic!(\"Unknown block state ID {}\", id),''
          @ ''\<newline>}panic!(\"Invalid block state ID {}\", id);\<newline>}\<newline>'',
        block_state_id_code := block_state_id_code st
          @ ''_ => panic!(\"Invalid block state {:?}\", self),\<newline>}\<newline>''
          @ ''panic!(\"Invalid block state {:?}\", self);}\<newline>'',
        property_names_code := property_names_code st
          @ ''_ => (),\<newline>'' @ ''}\<newline>'' @ ''m\<newline>'' @ ''}\<newline>'',
        name_code := name_code st @ ''}\<newline>}\<newline>''\<rparr>"

text \<open>The text handed to \<^verbatim>\<open>fout.write\<close>, call after call.\<close>

definition output_text :: "gen_state \<Rightarrow> string" where
  "output_text st =
     ''// This file was generated by /scripts/blocks.py\<newline>\<newline>''
   @ ''use std::collections::HashMap;\<newline>''
   @ ''use heck::SnakeCase;\<newline>\<newline>''
   @ enum_code st
   @ ''\<newline>''
   @ ''impl Block {\<newline>''
   @ block_state_id_code st
   @ ''\<newline>\<newline>''
   @ from_block_state_id_code st
   @ name_code st
   @ ''\<newline>''
   @ property_names_code st
   @ ''}''
   @ ''\<newline>'' @ state_code st
   @ ''\<newline>'' @ end_code st"

definition generate :: "blocks \<Rightarrow> py_error + gen_state" where
  "generate data =
     (case blocks_loop data initial_state of
        Inl e \<Rightarrow> Inl e
      | Inr st \<Rightarrow> Inr (finish st))"
section \<open>The generated program as data\<close>

text \<open>
  The script builds text. To speak about the Rust program this text is, the items it
  writes are given as data, with the text of each; the lemmas of the next section show
  that the buffers of the script hold exactly this text.
\<close>

subsection \<open>The document after the key checks\<close>

datatype checked_block =
    Single int
  | Multi "string list ordered_dict" "(int \<times> string ordered_dict) list"

definition check_state :: "block_state \<Rightarrow> py_error + int \<times> string ordered_dict" where
  "check_state state =
     (case state_properties state of
        None \<Rightarrow> Inl (KeyError ''properties'')
      | Some state_props \<Rightarrow>
          (case state_id state of
             None \<Rightarrow> Inl (KeyError ''id'')
           | Some i \<Rightarrow> Inr (i, state_props)))"

fun check_states :: "block_state list \<Rightarrow> py_error + (int \<times> string ordered_dict) list" where
  "check_states [] = Inr []"
| "check_states (state # rest) =
     (case check_state state of
        Inl e \<Rightarrow> Inl e
      | Inr s \<Rightarrow> (case check_states rest of Inl e \<Rightarrow> Inl e | Inr ss \<Rightarrow> Inr (s # ss)))"

definition check_block :: "block \<Rightarrow> py_error + checked_block" where
  "check_block obj =
     (case states obj of
        None \<Rightarrow> Inl (KeyError ''states'')
      | Some sts \<Rightarrow>
          if length sts = 1 then
            (case state_id (hd sts) of
               None \<Rightarrow> Inl (KeyError ''id'')
             | Some i \<Rightarrow> Inr (Single i))
          else
            (case properties obj of
               None \<Rightarrow> Inl (KeyError ''properties'')
             | Some props \<Rightarrow>
                 if list_ex (\<lambda>(prop_name, vals). vals = []) props then Inl IndexError
                 else (case check_states sts of
                         Inl e \<Rightarrow> Inl e
                       | Inr ss \<Rightarrow> Inr (Multi props ss))))"

subsection \<open>The generated items\<close>

datatype variant_shape = Unit | Carrier string

datatype rust_expr = Literal string | Path string string

fun render_expr :: "rust_expr \<Rightarrow> string" where
  "render_expr (Literal s) = s"
| "render_expr (Path ty v) = ty @ ''::'' @ v"

definition prop_val_expr :: "string \<Rightarrow> string \<Rightarrow> string \<Rightarrow> rust_expr" where
  "prop_val_expr camel prop_name prop_val =
     (if get_type_from_value prop_val = ''_enum''
      then Path (if prop_name \<in> set KNOWN_PROPERTIES
                 then snake_to_upper_camel prop_name
                 else camel @ snake_to_upper_camel prop_name)
                (snake_to_upper_camel prop_val)
      else Literal prop_val)"

type_synonym field_inits = "(string \<times> rust_expr) list"

definition state_fields :: "string \<Rightarrow> string ordered_dict \<Rightarrow> field_inits" where
  "state_fields camel state_props =
     map (\<lambda>(prop_name, prop_val).
            (process_property_name prop_name, prop_val_expr camel prop_name prop_val))
         state_props"

datatype encode_arm =
    EncodeUnit string int
  | EncodeCarrier string "(field_inits \<times> int) list"

datatype decode_arm =
    DecodeUnit int string
  | DecodeCarrier int string field_inits

type_synonym name_arm = "string \<times> bool \<times> string"

definition state_ifs :: "string \<Rightarrow> (int \<times> string ordered_dict) list \<Rightarrow> (field_inits \<times> int) list" where
  "state_ifs camel sts = map (\<lambda>(i, state_props). (state_fields camel state_props, i)) sts"

definition state_arms :: "string \<Rightarrow> (int \<times> string ordered_dict) list \<Rightarrow> decode_arm list" where
  "state_arms camel sts =
     map (\<lambda>(i, state_props). DecodeCarrier i camel (state_fields camel state_props)) sts"

definition variant_of :: "string \<Rightarrow> checked_block \<Rightarrow> string \<times> variant_shape" where
  "variant_of camel cb =
     (case cb of Single i \<Rightarrow> (camel, Unit) | Multi props sts \<Rightarrow> (camel, Carrier (camel @ ''Data'')))"

definition name_arm_of :: "string \<Rightarrow> string \<Rightarrow> checked_block \<Rightarrow> name_arm" where
  "name_arm_of camel block_identifier cb =
     (case cb of Single i \<Rightarrow> (camel, False, block_identifier)
               | Multi props sts \<Rightarrow> (camel, True, block_identifier))"

definition encode_arm_of :: "string \<Rightarrow> checked_block \<Rightarrow> encode_arm" where
  "encode_arm_of camel cb =
     (case cb of
        Single i \<Rightarrow> EncodeUnit camel i
      | Multi props sts \<Rightarrow>
          EncodeCarrier camel (state_ifs camel sts))"

definition decode_arms_of :: "string \<Rightarrow> checked_block \<Rightarrow> decode_arm list" where
  "decode_arms_of camel cb =
     (case cb of
        Single i \<Rightarrow> [DecodeUnit i camel]
      | Multi props sts \<Rightarrow> state_arms camel sts)"

definition property_keys_of :: "string \<Rightarrow> checked_block \<Rightarrow> (string \<times> string list) list" where
  "property_keys_of camel cb =
     (case cb of
        Single i \<Rightarrow> []
      | Multi props sts \<Rightarrow>
          [(camel, map (\<lambda>(prop_name, vals). process_property_name prop_name) props)])"

subsection \<open>Their text\<close>

fun render_variant :: "string \<times> variant_shape \<Rightarrow> string" where
  "render_variant (camel, Unit) = camel @ '',\<newline>''"
| "render_variant (camel, Carrier data_struct_name) =
     camel @ ''('' @ data_struct_name @ ''),\<newline>''"

fun render_name_arm :: "name_arm \<Rightarrow> string" where
  "render_name_arm (camel, carrier, block_identifier) =
     ''Block::'' @ camel @ (if carrier then ''(_)'' else '''')
     @ '' => \"'' @ block_identifier @ ''\",\<newline>''"

definition render_cond :: "string \<times> rust_expr \<Rightarrow> string" where
  "render_cond fe = ''data.'' @ fst fe @ '' == '' @ render_expr (snd fe)"

fun render_conds :: "field_inits \<Rightarrow> string" where
  "render_conds [] = ''''"
| "render_conds [fe] = render_cond fe"
| "render_conds (fe # rest) = render_cond fe @ '' && '' @ render_conds rest"

definition render_if :: "field_inits \<times> int \<Rightarrow> string" where
  "render_if ci = ''if '' @ render_conds (fst ci)
                  @ ''{\<newline>return '' @ str_int (snd ci) @ '';\<newline>}\<newline>''"

fun render_encode_arm :: "encode_arm \<Rightarrow> string" where
  "render_encode_arm (EncodeUnit camel i) =
     ''Block::'' @ camel @ '' => return '' @ str_int i @ '',\<newline>''"
| "render_encode_arm (EncodeCarrier camel ifs) =
     ''Block::'' @ camel @ ''(data) => {\<newline>'' @ concat (map render_if ifs) @ ''\<newline>}''"

definition render_field :: "string \<times> rust_expr \<Rightarrow> string" where
  "render_field fe = fst fe @ '': '' @ render_expr (snd fe) @ '',\<newline>''"

fun render_decode_arm :: "decode_arm \<Rightarrow> string" where
  "render_decode_arm (DecodeUnit i camel) =
     str_int i @ '' => return Block::'' @ camel @ '',\<newline>''"
| "render_decode_arm (DecodeCarrier i camel inits) =
     str_int i @ '' => {\<newline>return Block::'' @ camel @ ''('' @ camel @ ''Data {''
     @ concat (map render_field inits) @ ''});\<newline>},\<newline>''"

definition render_insert :: "string \<Rightarrow> string" where
  "render_insert key =
     ''m.insert(\"'' @ key @ ''\", (&format!(\"{:?}\", data.'' @ key
     @ '')).to_snake_case().as_str());''"

fun render_property_keys :: "string \<times> string list \<Rightarrow> string" where
  "render_property_keys (camel, keys) =
     ''Block::'' @ camel @ ''(data) => {\<newline>'' @ concat (map render_insert keys) @ ''},\<newline>''"

definition field_decl :: "string \<Rightarrow> string \<times> string list \<Rightarrow> string \<times> string" where
  "field_decl camel pv =
     (process_property_name (fst pv),
      case prop_type camel (fst pv) (snd pv) of Inl e \<Rightarrow> '''' | Inr ty \<Rightarrow> ty)"

definition enum_decls :: "string \<Rightarrow> string list ordered_dict \<Rightarrow> (string \<times> string list) list" where
  "enum_decls camel props =
     concat (map (\<lambda>(prop_name, vals).
                    if creates_enum prop_name vals
                    then [(camel @ snake_to_upper_camel prop_name, map snake_to_upper_camel vals)]
                    else [])
                 props)"

definition structs_of :: "string \<Rightarrow> checked_block \<Rightarrow> (string \<times> (string \<times> string) list) list" where
  "structs_of camel cb =
     (case cb of
        Single i \<Rightarrow> []
      | Multi props sts \<Rightarrow> [(camel @ ''Data'', map (field_decl camel) props)])"

definition enums_of :: "string \<Rightarrow> checked_block \<Rightarrow> (string \<times> string list) list" where
  "enums_of camel cb =
     (case cb of Single i \<Rightarrow> [] | Multi props sts \<Rightarrow> enum_decls camel props)"

definition render_field_decl :: "string \<times> string \<Rightarrow> string" where
  "render_field_decl ft = ''pub '' @ fst ft @ '': '' @ snd ft @ '',\<newline>''"

fun render_struct :: "string \<times> (string \<times> string) list \<Rightarrow> string" where
  "render_struct (data_struct_name, decls) =
     DERIVES @ ''pub struct '' @ data_struct_name @ '' {''
     @ concat (map render_field_decl decls) @ ''}\<newline>\<newline>''"

fun render_enum :: "string \<times> string list \<Rightarrow> string" where
  "render_enum (ty, variants) =
     DERIVES @ ''pub enum '' @ ty @ '' {''
     @ concat (map (\<lambda>v. v @ '',\<newline>'') variants) @ ''}\<newline>\<newline>''"

definition emit :: "string \<Rightarrow> string \<Rightarrow> checked_block \<Rightarrow> gen_state \<Rightarrow> gen_state" where
  "emit camel block_identifier cb st =
     \<lparr> enum_code = enum_code st @ render_variant (variant_of camel cb),
       block_state_id_code = block_state_id_code st @ render_encode_arm (encode_arm_of camel cb),
       from_block_state_id_code = from_block_state_id_code st
         @ concat (map render_decode_arm (decode_arms_of camel cb)),
       state_code = state_code st @ concat (map render_struct (structs_of camel cb)),
       end_code = end_code st @ concat (map render_enum (enums_of camel cb)),
       name_code = name_code st @ render_name_arm (name_arm_of camel block_identifier cb),
       property_names_code = property_names_code st
         @ concat (map render_property_keys (property_keys_of camel cb)) \<rparr>"

fun check_blocks :: "blocks \<Rightarrow> py_error + (string \<times> checked_block) list" where
  "check_blocks [] = Inr []"
| "check_blocks ((block_identifier, obj) # rest) =
     (case check_block obj of
        Inl e \<Rightarrow> Inl e
      | Inr cb \<Rightarrow>
          (case check_blocks rest of
             Inl e \<Rightarrow> Inl e
           | Inr cbs \<Rightarrow> Inr ((block_identifier, cb) # cbs)))"

definition block_camel :: "string \<Rightarrow> string" where
  "block_camel block_identifier = snake_to_upper_camel (strip_minecraft_identifier block_identifier)"

fun emit_all :: "(string \<times> checked_block) list \<Rightarrow> gen_state \<Rightarrow> gen_state" where
  "emit_all [] st = st"
| "emit_all ((block_identifier, cb) # rest) st =
     emit_all rest (emit (block_camel block_identifier) block_identifier cb st)"
subsection \<open>Example documents\<close>

text \<open>A block with one state and no attribute.\<close>

definition torch :: block where
  "torch = \<lparr>properties = None,
            states = Some [\<lparr>state_id = Some 5, state_properties = None\<rparr>]\<rparr>"

text \<open>A block with one state that has an attribute.\<close>

definition lit_lamp :: block where
  "lit_lamp = \<lparr>properties = Some [(''lit'', [''true''])],
               states = Some [\<lparr>state_id = Some 1,
                                state_properties = Some [(''lit'', ''true'')]\<rparr>]\<rparr>"

text \<open>A block with two attributes and four states.\<close>

definition lamp_states :: "block_state list" where
  "lamp_states =
     [\<lparr>state_id = Some 1, state_properties = Some [(''lit'', ''true''), (''level'', ''0'')]\<rparr>,
      \<lparr>state_id = Some 2, state_properties = Some [(''lit'', ''true''), (''level'', ''1'')]\<rparr>,
      \<lparr>state_id = Some 3, state_properties = Some [(''lit'', ''false''), (''level'', ''0'')]\<rparr>,
      \<lparr>state_id = Some 4, state_properties = Some [(''lit'', ''false''), (''level'', ''1'')]\<rparr>]"

definition lamp :: block where
  "lamp = \<lparr>properties = Some [(''lit'', [''true'', ''false'']), (''level'', [''0'', ''1''])],
           states = Some lamp_states\<rparr>"

definition lamp_checked :: checked_block where
  "lamp_checked =
     Multi [(''lit'', [''true'', ''false'']), (''level'', [''0'', ''1''])]
           [(1, [(''lit'', ''true''), (''level'', ''0'')]),
            (2, [(''lit'', ''true''), (''level'', ''1'')]),
            (3, [(''lit'', ''false''), (''level'', ''0'')]),
            (4, [(''lit'', ''false''), (''level'', ''1'')])]"

text \<open>
  A block whose domains are not uniform: the first value of \<^verbatim>\<open>lit\<close> is a boolean and
  the second is not, the first value of \<^verbatim>\<open>level\<close> is a number and the second is not, and
  \<^verbatim>\<open>power\<close> has integer values, the first of them negative.
\<close>

definition mixed_lamp :: block where
  "mixed_lamp =
     \<lparr>properties = Some [(''lit'', [''true'', ''dim'']), (''level'', [''7'', ''high'']),
                          (''power'', [''-1'', ''0''])],
      states = Some
        [\<lparr>state_id = Some 1,
          state_properties = Some [(''lit'', ''true''), (''level'', ''7''), (''power'', ''-1'')]\<rparr>,
         \<lparr>state_id = Some 2,
          state_properties = Some [(''lit'', ''dim''), (''level'', ''high''), (''power'', ''0'')]\<rparr>]\<rparr>"

text \<open>A block whose attribute \<^verbatim>\<open>mode\<close> has the values \<^verbatim>\<open>x_1\<close> and \<^verbatim>\<open>x1\<close>.\<close>

definition mode_lamp :: block where
  "mode_lamp =
     \<lparr>properties = Some [(''mode'', [''x_1'', ''x1''])],
      states = Some
        [\<lparr>state_id = Some 1, state_properties = Some [(''mode'', ''x_1'')]\<rparr>,
         \<lparr>state_id = Some 2, state_properties = Some [(''mode'', ''x1'')]\<rparr>]\<rparr>"

subsection \<open>Plain snake-case names\<close>

text \<open>\<^verbatim>\<open>sep.join(ws)\<close>, the inverse of \<^verbatim>\<open>split\<close>.\<close>

fun py_join :: "string \<Rightarrow> string list \<Rightarrow> string" where
  "py_join sep [] = []"
| "py_join sep [w] = w"
| "py_join sep (w # ws) = w @ sep @ py_join sep ws"

text \<open>
  A plain component is a lower-case letter followed by lower-case letters and then
  digits, as in \<^verbatim>\<open>left\<close> or \<^verbatim>\<open>x1\<close>; a plain name is made of plain components joined
  by single underscores, as in \<^verbatim>\<open>inner_left\<close>. The digits here are the ASCII ones.
\<close>

definition isascii_digit :: "char \<Rightarrow> bool" where
  "isascii_digit c = (48 \<le> (of_char c :: nat) \<and> (of_char c :: nat) \<le> 57)"

fun letters_then_digits :: "string \<Rightarrow> bool" where
  "letters_then_digits [] = True"
| "letters_then_digits (c # cs) =
     (if islower c then letters_then_digits cs else list_all isascii_digit (c # cs))"

definition plain_component :: "string \<Rightarrow> bool" where
  "plain_component w =
     (case w of [] \<Rightarrow> False | c # cs \<Rightarrow> islower c \<and> letters_then_digits cs)"

definition plain_snake :: "string \<Rightarrow> bool" where
  "plain_snake s = list_all plain_component (py_split CHR ''_'' s)"

subsection \<open>The program as a whole (lines 70 to 80 and 267 to 281)\<close>

text \<open>
  The files the program can see: the content of each file that exists, and the paths
  the process may open for update. Both files are opened in an update mode (\<^verbatim>\<open>r+\<close> and
  \<^verbatim>\<open>w+\<close>), so one permission per path is enough.
\<close>

record file_system =
  files :: "string \<rightharpoonup> string"
  updatable :: "string \<Rightarrow> bool"

text \<open>The arguments of the calls of \<^verbatim>\<open>fout.write\<close>, in order.\<close>

definition writes :: "gen_state \<Rightarrow> string list" where
  "writes st =
     [''// This file was generated by /scripts/blocks.py\<newline>\<newline>'',
      ''use std::collections::HashMap;\<newline>'',
      ''use heck::SnakeCase;\<newline>\<newline>'',
      enum_code st,
      ''\<newline>'',
      ''impl Block {\<newline>'',
      block_state_id_code st,
      ''\<newline>\<newline>'',
      from_block_state_id_code st,
      name_code st,
      ''\<newline>'',
      property_names_code st,
      ''}'',
      ''\<newline>'' @ state_code st,
      ''\<newline>'' @ end_code st]"

text \<open>
  \<^verbatim>\<open>fout.write(s)\<close> on a text of the document encodes it with the default codec and
  raises \<^verbatim>\<open>UnicodeEncodeError\<close> when it is not ASCII; what was written before stays in
  the file.
\<close>

fun fout_write :: "string list \<Rightarrow> string \<Rightarrow> string \<times> py_error option" where
  "fout_write [] written = (written, None)"
| "fout_write (s # rest) written =
     (if ascii_string s then fout_write rest (written @ s)
      else (written, Some UnicodeEncodeError))"

text \<open>
  The run of the script on the command line \<open>argv\<close>, giving the exit status and the
  files it leaves. An exception ends the run with status 1. \<^verbatim>\<open>open(in_path, "r+")\<close>
  needs the file to exist; \<^verbatim>\<open>open(out_path, "w+")\<close> creates the file or empties it, and
  comes before \<^verbatim>\<open>json.load\<close>. The parser is a parameter: \<open>json_load\<close> gives the document
  of a text, or the error raised for a text that is not a document.
\<close>

definition main ::
  "(string \<Rightarrow> py_error + blocks) \<Rightarrow> string list \<Rightarrow> file_system \<Rightarrow> nat \<times> file_system" where
  "main json_load argv fs =
     (case argv of
        script # in_path # out_path # rest \<Rightarrow>
          (case files fs in_path of
             None \<Rightarrow> (1, fs)
           | Some text \<Rightarrow>
               if \<not> updatable fs in_path then (1, fs)
               else if \<not> updatable fs out_path then (1, fs)
               else
                 (let fs = fs\<lparr>files := (files fs)(out_path \<mapsto> '''')\<rparr>;
                      text = (if in_path = out_path then '''' else text)
                  in case json_load text of
                       Inl e \<Rightarrow> (1, fs)
                     | Inr data \<Rightarrow>
                         (case generate data of
                            Inl e \<Rightarrow> (1, fs)
                          | Inr st \<Rightarrow>
                              (case fout_write (writes st) '''' of
                                 (written, err) \<Rightarrow>
                                   (if err = None then 0 else 1,
                                    fs\<lparr>files := (files fs)(out_path \<mapsto> written)\<rparr>)))))
      | _ \<Rightarrow> (1, fs))"

text \<open>A directory with a report that is not JSON and an output file from an earlier run.\<close>

definition old_files :: file_system where
  "old_files = \<lparr>files = [''blocks.json'' \<mapsto> ''{'', ''lib.rs'' \<mapsto> ''// old''],
                 updatable = (\<lambda>path. True)\<rparr>"

subsection \<open>The items of the whole document\<close>

definition variants :: "(string \<times> checked_block) list \<Rightarrow> (string \<times> variant_shape) list" where
  "variants cbs = map (\<lambda>(block_identifier, cb). variant_of (block_camel block_identifier) cb) cbs"

definition encode_arms :: "(string \<times> checked_block) list \<Rightarrow> encode_arm list" where
  "encode_arms cbs =
     map (\<lambda>(block_identifier, cb). encode_arm_of (block_camel block_identifier) cb) cbs"

definition decode_arms :: "(string \<times> checked_block) list \<Rightarrow> decode_arm list" where
  "decode_arms cbs =
     concat (map (\<lambda>(block_identifier, cb). decode_arms_of (block_camel block_identifier) cb) cbs)"

definition name_arms :: "(string \<times> checked_block) list \<Rightarrow> name_arm list" where
  "name_arms cbs =
     map (\<lambda>(block_identifier, cb).
            name_arm_of (block_camel block_identifier) block_identifier cb) cbs"

definition property_keys :: "(string \<times> checked_block) list \<Rightarrow> (string \<times> string list) list" where
  "property_keys cbs =
     concat (map (\<lambda>(block_identifier, cb). property_keys_of (block_camel block_identifier) cb) cbs)"

section \<open>What the generated functions compute\<close>

text \<open>
  The generated Rust is a \<^verbatim>\<open>match\<close> per function; the first arm whose pattern matches is
  taken. Values of the generated types: a field holds a boolean, an integer or a variant
  of an enum; a \<^verbatim>\<open>Block\<close> is a unit variant or a variant carrying a struct, given by its
  fields. Type checking by the Rust compiler is not modelled.
\<close>

datatype rust_value = VBool bool | VInt nat | VEnum string string

datatype block_value = UnitValue string | DataValue string "(string \<times> rust_value) list"

datatype rust_panic = InvalidState | UnknownCode

text \<open>The value of a decimal literal.\<close>

definition decimal :: "string \<Rightarrow> nat" where
  "decimal s = foldl (\<lambda>n c. 10 * n + ((of_char c :: nat) - 48)) 0 s"

fun eval_expr :: "rust_expr \<Rightarrow> rust_value" where
  "eval_expr (Literal s) =
     (if s = ''true'' then VBool True
      else if s = ''false'' then VBool False
      else VInt (decimal s))"
| "eval_expr (Path ty v) = VEnum ty v"

definition eval_fields :: "field_inits \<Rightarrow> (string \<times> rust_value) list" where
  "eval_fields inits = map (\<lambda>(field, e). (field, eval_expr e)) inits"




text \<open>\<^verbatim>\<open>from_block_state_id\<close>, the decoder.\<close>

fun decode_arm_id :: "decode_arm \<Rightarrow> int" where
  "decode_arm_id (DecodeUnit i camel) = i"
| "decode_arm_id (DecodeCarrier i camel inits) = i"

fun decode_arm_value :: "decode_arm \<Rightarrow> block_value" where
  "decode_arm_value (DecodeUnit i camel) = UnitValue camel"
| "decode_arm_value (DecodeCarrier i camel inits) = DataValue camel (eval_fields inits)"

fun run_from_block_state_id :: "decode_arm list \<Rightarrow> int \<Rightarrow> rust_panic + block_value" where
  "run_from_block_state_id [] n = Inl UnknownCode"
| "run_from_block_state_id (arm # arms) n =
     (if decode_arm_id arm = n then Inr (decode_arm_value arm)
      else run_from_block_state_id arms n)"

text \<open>\<^verbatim>\<open>name\<close>: the match has no default arm.\<close>

fun matches_name_arm :: "name_arm \<Rightarrow> block_value \<Rightarrow> bool" where
  "matches_name_arm (camel, carrier, block_identifier) (UnitValue c) = (c = camel \<and> \<not> carrier)"
| "matches_name_arm (camel, carrier, block_identifier) (DataValue c data) = (c = camel \<and> carrier)"

fun run_name :: "name_arm list \<Rightarrow> block_value \<Rightarrow> string option" where
  "run_name [] v = None"
| "run_name (arm # arms) v =
     (if matches_name_arm arm v then Some (snd (snd arm)) else run_name arms v)"

text \<open>
  \<^verbatim>\<open>property_names\<close>: the keys inserted into the map, in order. The value stored under a
  key is computed by the \<^verbatim>\<open>heck\<close> crate from the debug output of the field and is not
  modelled.
\<close>

fun run_property_names :: "(string \<times> string list) list \<Rightarrow> block_value \<Rightarrow> string list" where
  "run_property_names [] v = []"
| "run_property_names ((camel, keys) # arms) v =
     (case v of
        DataValue c data \<Rightarrow> if c = camel then keys else run_property_names arms v
      | UnitValue c \<Rightarrow> run_property_names arms v)"

subsection \<open>The numeric codes of a document\<close>

text \<open>The codes of the states of a block and of a document, in order, repetitions kept.\<close>

definition block_state_ids :: "block \<Rightarrow> int list" where
  "block_state_ids obj =
     (case states obj of
        None \<Rightarrow> []
      | Some sts \<Rightarrow> concat (map (\<lambda>state. case state_id state of None \<Rightarrow> [] | Some i \<Rightarrow> [i]) sts))"

definition state_ids :: "blocks \<Rightarrow> int list" where
  "state_ids data = concat (map (\<lambda>(block_identifier, obj). block_state_ids obj) data)"

text \<open>The same document with every code \<open>i\<close> replaced by \<open>f i\<close>.\<close>

definition renumber_state :: "(int \<Rightarrow> int) \<Rightarrow> block_state \<Rightarrow> block_state" where
  "renumber_state f state = state\<lparr>state_id := map_option f (state_id state)\<rparr>"

definition renumber_block :: "(int \<Rightarrow> int) \<Rightarrow> block \<Rightarrow> block" where
  "renumber_block f obj = obj\<lparr>states := map_option (map (renumber_state f)) (states obj)\<rparr>"

definition renumber :: "(int \<Rightarrow> int) \<Rightarrow> blocks \<Rightarrow> blocks" where
  "renumber f data = map (\<lambda>(block_identifier, obj). (block_identifier, renumber_block f obj)) data"





section \<open>The buffers hold the text of the generated items\<close>

lemma render_prop_val_expr:
  "render_expr (prop_val_expr camel prop_name prop_val) = rust_prop_val camel prop_name prop_val"
  by (simp add: prop_val_expr_def rust_prop_val_def)

lemma state_props_loop_render:
  "state_props_loop camel ps (n, sif, fr) =
     (n + length ps,
      sif @ (if n \<noteq> 0 \<and> ps \<noteq> [] then '' && '' else '''') @ render_conds (state_fields camel ps),
      fr @ concat (map render_field (state_fields camel ps)))"
proof (induction ps arbitrary: n sif fr)
  case Nil
  then show ?case by (simp add: state_fields_def)
next
  case (Cons p ps)
  obtain pn pv where p: "p = (pn, pv)" by (cases p)
  show ?case
  proof (cases ps)
    case Nil
    then show ?thesis
      by (simp add: p state_fields_def render_cond_def render_field_def render_prop_val_expr Let_def)
  next
    case (Cons q qs)
    then have ne: "ps \<noteq> []" by simp
    show ?thesis
      using ne Cons.IH [of "Suc n"] Cons
      by (simp add: p state_fields_def render_cond_def render_field_def render_prop_val_expr Let_def)
  qed
qed

lemma state_step_render:
  "state_step camel s (sif, fr) =
     (case check_state s of
        Inl e \<Rightarrow> Inl e
      | Inr ip \<Rightarrow>
          Inr (sif @ render_if (state_fields camel (snd ip), fst ip),
               fr @ render_decode_arm (DecodeCarrier (fst ip) camel (state_fields camel (snd ip)))))"
  by (simp add: state_step_def check_state_def Let_def state_props_loop_render render_if_def
      split: option.splits)

lemma states_loop_render:
  "states_loop camel sts (sif, fr) =
     (case check_states sts of
        Inl e \<Rightarrow> Inl e
      | Inr ss \<Rightarrow>
          Inr (sif @ concat (map render_if (state_ifs camel ss)),
               fr @ concat (map render_decode_arm (state_arms camel ss))))"
proof (induction sts arbitrary: sif fr)
  case Nil
  then show ?case by (simp add: state_ifs_def state_arms_def)
next
  case (Cons s sts)
  show ?case
  proof (cases "check_state s")
    case (Inl e)
    then show ?thesis by (simp add: state_step_render)
  next
    case (Inr ip)
    then show ?thesis
      by (cases ip; cases "check_states sts")
         (simp_all add: state_step_render Cons.IH state_ifs_def state_arms_def)
  qed
qed

lemma prop_step_render:
  "prop_step camel pn vals st =
     (if vals = [] then Inl IndexError
      else Inr (st\<lparr>end_code := end_code st @ concat (map render_enum (enum_decls camel [(pn, vals)])),
                  state_code := state_code st @ render_field_decl (field_decl camel (pn, vals)),
                  property_names_code := property_names_code st
                    @ render_insert (process_property_name pn)\<rparr>))"
  by (cases vals)
     (simp_all add: prop_step_def prop_type_def creates_enum_def Let_def enum_decls_def
        field_decl_def render_field_decl_def render_insert_def comp_def)

lemma enum_decls_Cons: "enum_decls camel (p # ps) = enum_decls camel [p] @ enum_decls camel ps"
  by (simp add: enum_decls_def)

lemma props_loop_render:
  "props_loop camel props st =
     (if list_ex (\<lambda>(prop_name, vals). vals = []) props then Inl IndexError
      else Inr (st\<lparr>end_code := end_code st @ concat (map render_enum (enum_decls camel props)),
                  state_code := state_code st @ concat (map render_field_decl (map (field_decl camel) props)),
                  property_names_code := property_names_code st
                    @ concat (map render_insert (map (\<lambda>(prop_name, vals). process_property_name prop_name) props))\<rparr>))"
proof (induction props arbitrary: st)
  case Nil
  then show ?case by (simp add: enum_decls_def)
next
  case (Cons p props)
  obtain pn vals where p: "p = (pn, vals)" by (cases p)
  show ?case
    by (simp add: p prop_step_render Cons.IH enum_decls_Cons [of camel "(pn, vals)" props])
qed

lemma block_step_render:
  "block_step block_identifier obj st =
     (case check_block obj of
        Inl e \<Rightarrow> Inl e
      | Inr cb \<Rightarrow> Inr (emit (block_camel block_identifier) block_identifier cb st))"
proof (cases "states obj")
  case None
  then show ?thesis by (simp add: block_step_def check_block_def)
next
  case (Some sts)
  note sts = this
  show ?thesis
  proof (cases "length sts = 1")
    case True
    then show ?thesis using sts
      by (cases "state_id (hd sts)")
         (simp_all add: block_step_def check_block_def Let_def emit_def block_camel_def
            variant_of_def encode_arm_of_def decode_arms_of_def structs_of_def enums_of_def
            name_arm_of_def property_keys_of_def)
  next
    case False
    note multi = this
    show ?thesis
    proof (cases "properties obj")
      case None
      then show ?thesis using sts multi by (simp add: block_step_def check_block_def Let_def)
    next
      case (Some props)
      note props = this
      show ?thesis
      proof (cases "list_ex (\<lambda>(prop_name, vals). vals = []) props")
        case True
        then show ?thesis using sts multi props
          by (simp add: block_step_def check_block_def Let_def props_loop_render)
      next
        case False
        note ne = this
        show ?thesis
        proof (cases "check_states sts")
          case (Inl e)
          then show ?thesis using sts multi props ne
            by (simp add: block_step_def check_block_def Let_def props_loop_render
                states_loop_render)
        next
          case (Inr ss)
          then show ?thesis using sts multi props ne
            by (simp add: block_step_def check_block_def Let_def props_loop_render
                states_loop_render emit_def block_camel_def
                variant_of_def encode_arm_of_def decode_arms_of_def structs_of_def enums_of_def
                name_arm_of_def property_keys_of_def state_ifs_def state_arms_def)
        qed
      qed
    qed
  qed
qed

lemma blocks_loop_render:
  "blocks_loop data st =
     (case check_blocks data of Inl e \<Rightarrow> Inl e | Inr cbs \<Rightarrow> Inr (emit_all cbs st))"
proof (induction data arbitrary: st)
  case Nil
  then show ?case by simp
next
  case (Cons p data)
  obtain i obj where p: "p = (i, obj)" by (cases p)
  show ?case
    by (cases "check_block obj"; cases "check_blocks data")
       (simp_all add: p block_step_render Cons.IH)
qed

lemma generate_render:
  "generate data =
     (case check_blocks data of
        Inl e \<Rightarrow> Inl e
      | Inr cbs \<Rightarrow> Inr (finish (emit_all cbs initial_state)))"
  by (simp add: generate_def blocks_loop_render split: sum.splits)

lemma emit_all_render:
  "emit_all cbs st =
     \<lparr> enum_code = enum_code st @ concat (map render_variant (variants cbs)),
       block_state_id_code = block_state_id_code st
         @ concat (map render_encode_arm (encode_arms cbs)),
       from_block_state_id_code = from_block_state_id_code st
         @ concat (map render_decode_arm (decode_arms cbs)),
       state_code = state_code st
         @ concat (map (\<lambda>(block_identifier, cb).
             concat (map render_struct (structs_of (block_camel block_identifier) cb))) cbs),
       end_code = end_code st
         @ concat (map (\<lambda>(block_identifier, cb).
             concat (map render_enum (enums_of (block_camel block_identifier) cb))) cbs),
       name_code = name_code st @ concat (map render_name_arm (name_arms cbs)),
       property_names_code = property_names_code st
         @ concat (map render_property_keys (property_keys cbs)) \<rparr>"
proof (induction cbs arbitrary: st)
  case Nil
  then show ?case
    by (simp add: variants_def encode_arms_def decode_arms_def name_arms_def property_keys_def)
next
  case (Cons p cbs)
  obtain i cb where p: "p = (i, cb)" by (cases p)
  show ?case
    by (simp add: p Cons.IH emit_def variants_def encode_arms_def decode_arms_def name_arms_def
        property_keys_def)
qed
subsection \<open>The key checks of a document\<close>

lemma check_block_Single:
  "check_block obj = Inr cb \<Longrightarrow> states obj = Some sts \<Longrightarrow>
   (length sts = 1 \<and> (\<exists>i. cb = Single i)) \<or> (length sts \<noteq> 1 \<and> (\<exists>props ss. cb = Multi props ss))"
  by (auto simp: check_block_def split: option.splits if_splits sum.splits)

lemma check_blocks_fst: "check_blocks data = Inr cbs \<Longrightarrow> map fst cbs = map fst data"
proof (induction data arbitrary: cbs)
  case Nil
  then show ?case by simp
next
  case (Cons p data)
  obtain i obj where p: "p = (i, obj)" by (cases p)
  from Cons.prems p obtain cb cbs' where cb: "check_block obj = Inr cb"
    and cbs': "check_blocks data = Inr cbs'" and cbs: "cbs = (i, cb) # cbs'"
    by (auto split: sum.splits)
  from Cons.IH [OF cbs'] show ?case by (simp add: cbs p)
qed

lemma check_blocks_mem:
  "check_blocks data = Inr cbs \<Longrightarrow> (block_identifier, obj) \<in> set data \<Longrightarrow>
   \<exists>cb. check_block obj = Inr cb \<and> (block_identifier, cb) \<in> set cbs"
proof (induction data arbitrary: cbs)
  case Nil
  then show ?case by simp
next
  case (Cons p data)
  obtain i obj' where p: "p = (i, obj')" by (cases p)
  from Cons.prems(1) p obtain cb cbs' where cb: "check_block obj' = Inr cb"
    and cbs': "check_blocks data = Inr cbs'" and cbs: "cbs = (i, cb) # cbs'"
    by (auto split: sum.splits)
  show ?case
  proof (cases "(block_identifier, obj) = p")
    case True
    then show ?thesis using p cb cbs by auto
  next
    case False
    then have "(block_identifier, obj) \<in> set data" using Cons.prems(2) by simp
    from Cons.IH [OF cbs' this] show ?thesis using cbs by auto
  qed
qed

lemma generate_checked: "generate data = Inr st \<Longrightarrow> \<exists>cbs. check_blocks data = Inr cbs"
  by (cases "check_blocks data") (simp_all add: generate_render)

lemma torch_lamp_check:
  "check_blocks [(''minecraft:torch'', torch), (''minecraft:lamp'', lamp)]
     = Inr [(''minecraft:torch'', Single 5), (''minecraft:lamp'', lamp_checked)]"
  by code_simp

lemma generate_decode_code:
  "generate data = Inr st \<Longrightarrow> check_blocks data = Inr cbs \<Longrightarrow>
   from_block_state_id_code st
     = from_block_state_id_code initial_state @ concat (map render_decode_arm (decode_arms cbs))
       @ ''_ => panic!(\"Unknown block state ID {}\", id),''
       @ ''\<newline>}panic!(\"Invalid block state ID {}\", id);\<newline>}\<newline>''"
  by (auto simp: generate_render emit_all_render finish_def)


lemma check_states_ids:
  "check_states sts = Inr ss \<Longrightarrow>
   map fst ss = concat (map (\<lambda>state. case state_id state of None \<Rightarrow> [] | Some i \<Rightarrow> [i]) sts)"
proof (induction sts arbitrary: ss)
  case Nil
  then show ?case by auto
next
  case (Cons s sts)
  from Cons.prems obtain x ss' where x: "check_state s = Inr x"
    and ss': "check_states sts = Inr ss'" and ss: "ss = x # ss'"
    by (auto split: sum.splits)
  from x have "state_id s = Some (fst x)"
    by (auto simp: check_state_def split: option.splits)
  then show ?case using Cons.IH [OF ss'] ss by simp
qed

lemma check_block_ids:
  "check_block obj = Inr cb \<Longrightarrow>
   map decode_arm_id (decode_arms_of camel cb) = block_state_ids obj"
proof (cases "states obj")
  case None
  assume "check_block obj = Inr cb"
  then show ?thesis using None by (simp add: check_block_def)
next
  case (Some sts)
  assume cb: "check_block obj = Inr cb"
  show ?thesis
  proof (cases "length sts = 1")
    case True
    then obtain s where s: "sts = [s]" by (cases sts) auto
    show ?thesis using cb Some s
      by (auto simp: check_block_def decode_arms_of_def block_state_ids_def split: option.splits)
  next
    case False
    from cb Some False obtain props ss where ss: "check_states sts = Inr ss"
      and m: "cb = Multi props ss"
      by (auto simp: check_block_def split: option.splits if_splits sum.splits)
    have "map decode_arm_id (state_arms camel ss) = map fst ss"
      by (induction ss) (auto simp: state_arms_def)
    then show ?thesis using check_states_ids [OF ss] m Some
      by (simp add: decode_arms_of_def block_state_ids_def)
  qed
qed

lemma check_blocks_ids:
  "check_blocks data = Inr cbs \<Longrightarrow> map decode_arm_id (decode_arms cbs) = state_ids data"
proof (induction data arbitrary: cbs)
  case Nil
  then show ?case by (auto simp: decode_arms_def state_ids_def)
next
  case (Cons p data)
  obtain i obj where p: "p = (i, obj)" by (cases p)
  from Cons.prems p obtain cb cbs' where cb: "check_block obj = Inr cb"
    and cbs': "check_blocks data = Inr cbs'" and cbs: "cbs = (i, cb) # cbs'"
    by (auto split: sum.splits)
  from Cons.IH [OF cbs'] check_block_ids [OF cb, of "block_camel i"]
  show ?case by (simp add: cbs p decode_arms_def state_ids_def)
qed

lemma run_from_block_state_id_find:
  "run_from_block_state_id arms n
     = (case find (\<lambda>arm. decode_arm_id arm = n) arms of
          None \<Rightarrow> Inl UnknownCode
        | Some arm \<Rightarrow> Inr (decode_arm_value arm))"
  by (induction arms) simp_all
section \<open>Block names\<close>

text \<open>
  C10. The block name is the identifier without its first 10 characters, whatever these
  are: \<open>strip_minecraft_identifier\<close> never looks at them. The loop body raises exactly when
  a key check of the object fails, which does not involve the identifier, and otherwise
  writes the items of the block under the camel-cased rest of the identifier; so an
  identifier outside the \<^verbatim>\<open>minecraft:\<close> namespace is cut and processed like any other.
\<close>

theorem block_name_drops_ten_characters:
  "strip_minecraft_identifier s = drop 10 s
   \<and> length (strip_minecraft_identifier s) = length s - 10
   \<and> block_step block_identifier obj st =
       (case check_block obj of
          Inl e \<Rightarrow> Inl e
        | Inr cb \<Rightarrow>
            Inr (emit (snake_to_upper_camel (drop 10 block_identifier)) block_identifier cb st))"
  by (simp add: block_step_render block_camel_def strip_minecraft_identifier_def
      split: sum.splits)

section \<open>Type resolution\<close>

text \<open>
  A name produced by \<open>snake_to_upper_camel\<close> never starts with a lower-case letter, so
  neither a pre-created enum name nor a fresh enum name is \<^verbatim>\<open>bool\<close> or \<^verbatim>\<open>i32\<close>.
\<close>

lemma not_islower_upper: "islower c \<Longrightarrow> \<not> islower (upper c)"
proof -
  assume h: "islower c"
  then have "((of_char c :: nat) - 32) mod 256 = of_char c - 32"
    unfolding islower_def by (intro mod_less) linarith
  then show ?thesis using h by (simp add: islower_def upper_def) arith
qed

lemma title_from_False_hd: "title_from False s = x # xs \<Longrightarrow> \<not> islower x"
  by (cases s) (auto simp: not_islower_upper split: if_splits)

lemma concat_title_hd: "concat (map title ws) = x # xs \<Longrightarrow> \<not> islower x"
proof (induction ws)
  case Nil
  then show ?case by simp
next
  case (Cons w ws)
  show ?case
  proof (cases "title w")
    case Nil
    then show ?thesis using Cons by simp
  next
    case (Cons y ys)
    then have "y = x" using Cons.prems by simp
    then show ?thesis using Cons title_from_False_hd [of w y ys] by (simp add: title_def)
  qed
qed

lemma snake_to_upper_camel_hd: "snake_to_upper_camel s = x # xs \<Longrightarrow> \<not> islower x"
  unfolding snake_to_upper_camel_def by (rule concat_title_hd)

lemma camel_append_hd:
  "snake_to_upper_camel a @ snake_to_upper_camel b = x # xs \<Longrightarrow> \<not> islower x"
  by (cases "snake_to_upper_camel a") (auto dest: snake_to_upper_camel_hd)

lemma islower_b: "islower CHR ''b''" by (simp add: islower_def)
lemma islower_i: "islower CHR ''i''" by (simp add: islower_def)

lemma camel_not_bool: "snake_to_upper_camel s \<noteq> ''bool''"
  using snake_to_upper_camel_hd [of s "CHR ''b''" "''ool''"] islower_b by auto

lemma camel_not_i32: "snake_to_upper_camel s \<noteq> ''i32''"
  using snake_to_upper_camel_hd [of s "CHR ''i''" "''32''"] islower_i by auto

lemma camel_append_not_bool: "snake_to_upper_camel a @ snake_to_upper_camel b \<noteq> ''bool''"
  using camel_append_hd [of a b "CHR ''b''" "''ool''"] islower_b by auto

lemma camel_append_not_i32: "snake_to_upper_camel a @ snake_to_upper_camel b \<noteq> ''i32''"
  using camel_append_hd [of a b "CHR ''i''" "''32''"] islower_i by auto

text \<open>
  C2, as stated, fails: the type of a field is decided by the first value of the domain
  alone (\<^verbatim>\<open>vals[0]\<close>, line 172). In the struct written for \<open>mixed_lamp\<close>, \<^verbatim>\<open>lit\<close>
  is a \<^verbatim>\<open>bool\<close> although its second value is not a boolean, \<^verbatim>\<open>level\<close> is an
  \<^verbatim>\<open>i32\<close> although its second value is not a number, and \<^verbatim>\<open>power\<close>, whose values are
  the integer literals \<^verbatim>\<open>-1\<close> and \<^verbatim>\<open>0\<close>, gets a fresh enum, since \<^verbatim>\<open>isdigit\<close> rejects
  the sign.
\<close>

theorem type_from_all_values_counterexample:
  "map_sum id state_code (generate [(''minecraft:lamp'', mixed_lamp)])
     = Inr (DERIVES @ ''pub struct LampData {pub lit: bool,\<newline>pub level: i32,\<newline>pub power: LampPower,\<newline>}\<newline>\<newline>'')
   \<and> properties mixed_lamp
     = Some [(''lit'', [''true'', ''dim'']), (''level'', [''7'', ''high'']),
             (''power'', [''-1'', ''0''])]
   \<and> \<not> list_all (\<lambda>v. v = ''true'' \<or> v = ''false'') [''true'', ''dim'']
   \<and> \<not> list_all isdigit [''7'', ''high'']"
  by code_simp

lemma prop_type_bool_i32:
  "(prop_type (snake_to_upper_camel b) pn (v0 # vs) = Inr ''bool'')
     = (pn \<notin> set KNOWN_PROPERTIES \<and> (v0 = ''true'' \<or> v0 = ''false''))
   \<and> (prop_type (snake_to_upper_camel b) pn (v0 # vs) = Inr ''i32'')
     = (pn \<notin> set KNOWN_PROPERTIES \<and> v0 \<noteq> ''true'' \<and> v0 \<noteq> ''false'' \<and> isdigit v0)"
  by (auto simp: prop_type_def get_type_from_value_def Let_def camel_not_bool camel_not_i32
      camel_append_not_bool camel_append_not_i32)

lemma isdigit_not_true_false: "isdigit v \<Longrightarrow> v \<noteq> ''true'' \<and> v \<noteq> ''false''"
  by (auto simp: isdigit_def isdigit_char_def)

lemma field_decl_first_value:
  assumes "pn \<notin> set KNOWN_PROPERTIES" and "vals \<noteq> []"
  shows "(snd (field_decl (snake_to_upper_camel b) (pn, vals)) = ''bool'')
           = (hd vals = ''true'' \<or> hd vals = ''false'')
       \<and> (snd (field_decl (snake_to_upper_camel b) (pn, vals)) = ''i32'') = isdigit (hd vals)"
proof -
  from assms(2) obtain v0 vs where v: "vals = v0 # vs" by (cases vals) auto
  obtain ty where ty: "prop_type (snake_to_upper_camel b) pn (v0 # vs) = Inr ty"
    by (simp add: prop_type_def Let_def)
  from prop_type_bool_i32 [of b pn v0 vs] assms(1) isdigit_not_true_false [of v0]
  show ?thesis by (auto simp: v ty field_decl_def)
qed

text \<open>
  C2, amended. It speaks of the blocks that get a struct, those that do not have exactly
  one state, and of the attributes that are not known properties; what line 174 does to
  a known property is the matter of C3. When the loop body succeeds on such a block, the
  struct has one field per attribute, named after the attribute, no domain is empty, and
  the type of the field of an attribute outside the registry whose first value is an
  ASCII string is \<^verbatim>\<open>bool\<close> exactly when that first value is \<^verbatim>\<open>true\<close> or \<^verbatim>\<open>false\<close>,
  and \<^verbatim>\<open>i32\<close> exactly when it is a non-empty string of digits. The other values of the
  domain play no part.
\<close>

theorem field_type_from_first_value:
  assumes "block_step block_identifier obj st = Inr st'"
    and "states obj = Some sts" and "length sts \<noteq> 1"
    and "properties obj = Some props"
  shows "state_code st' = state_code st
           @ render_struct (block_camel block_identifier @ ''Data'',
                            map (field_decl (block_camel block_identifier)) props)
       \<and> list_all (\<lambda>(prop_name, vals).
            vals \<noteq> []
            \<and> fst (field_decl (block_camel block_identifier) (prop_name, vals))
                = process_property_name prop_name
            \<and> (prop_name \<notin> set KNOWN_PROPERTIES \<and> ascii_string (hd vals) \<longrightarrow>
                 (snd (field_decl (block_camel block_identifier) (prop_name, vals)) = ''bool'')
                   = (hd vals = ''true'' \<or> hd vals = ''false'')
               \<and> (snd (field_decl (block_camel block_identifier) (prop_name, vals)) = ''i32'')
                   = isdigit (hd vals)))
          props"
proof -
  from assms(1) obtain cb where cb: "check_block obj = Inr cb"
    and st': "st' = emit (block_camel block_identifier) block_identifier cb st"
    by (auto simp: block_step_render split: sum.splits)
  from cb assms(2,3,4) obtain ss where multi: "cb = Multi props ss"
    and ne: "\<not> list_ex (\<lambda>(prop_name, vals). vals = []) props"
    by (auto simp: check_block_def split: if_splits sum.splits)
  have code: "state_code st' = state_code st
           @ render_struct (block_camel block_identifier @ ''Data'',
                            map (field_decl (block_camel block_identifier)) props)"
    by (simp add: st' multi emit_def structs_of_def)
  have each: "vals \<noteq> []
        \<and> fst (field_decl (block_camel block_identifier) (prop_name, vals))
            = process_property_name prop_name
        \<and> (prop_name \<notin> set KNOWN_PROPERTIES \<and> ascii_string (hd vals) \<longrightarrow>
             (snd (field_decl (block_camel block_identifier) (prop_name, vals)) = ''bool'')
               = (hd vals = ''true'' \<or> hd vals = ''false'')
           \<and> (snd (field_decl (block_camel block_identifier) (prop_name, vals)) = ''i32'')
               = isdigit (hd vals))"
    if "(prop_name, vals) \<in> set props" for prop_name vals
  proof -
    from ne that have v: "vals \<noteq> []" by (auto simp: list_ex_iff)
    show ?thesis
      using v field_decl_first_value [of prop_name vals "strip_minecraft_identifier block_identifier"]
      by (auto simp: block_camel_def field_decl_def)
  qed
  then have "list_all (\<lambda>(prop_name, vals).
            vals \<noteq> []
            \<and> fst (field_decl (block_camel block_identifier) (prop_name, vals))
                = process_property_name prop_name
            \<and> (prop_name \<notin> set KNOWN_PROPERTIES \<and> ascii_string (hd vals) \<longrightarrow>
                 (snd (field_decl (block_camel block_identifier) (prop_name, vals)) = ''bool'')
                   = (hd vals = ''true'' \<or> hd vals = ''false'')
               \<and> (snd (field_decl (block_camel block_identifier) (prop_name, vals)) = ''i32'')
                   = isdigit (hd vals)))
          props"
    unfolding list_all_iff by fast
  with code show ?thesis by simp
qed

lemma lamp_camel: "block_camel ''minecraft:lamp'' = ''Lamp''"
  by code_simp

lemma lamp_check: "check_block lamp = Inr lamp_checked"
  by code_simp

lemma lamp_step:
  "block_step ''minecraft:lamp'' lamp st = Inr (emit ''Lamp'' ''minecraft:lamp'' lamp_checked st)"
  by (simp add: block_step_render lamp_check lamp_camel)

theorem field_type_from_first_value_witness:
  "block_step ''minecraft:lamp'' lamp initial_state
     = Inr (emit ''Lamp'' ''minecraft:lamp'' lamp_checked initial_state)
   \<and> properties lamp = Some [(''lit'', [''true'', ''false'']), (''level'', [''0'', ''1''])]
   \<and> state_code (emit ''Lamp'' ''minecraft:lamp'' lamp_checked initial_state)
     = DERIVES @ ''pub struct LampData {pub lit: bool,\<newline>pub level: i32,\<newline>}\<newline>\<newline>''
   \<and> snd (field_decl ''Lamp'' (''lit'', [''true'', ''false''])) = ''bool''
   \<and> snd (field_decl ''Lamp'' (''level'', [''0'', ''1''])) = ''i32''"
proof -
  have h1: "block_step ''minecraft:lamp'' lamp initial_state
              = Inr (emit ''Lamp'' ''minecraft:lamp'' lamp_checked initial_state)"
    by (rule lamp_step)
  have h2: "states lamp = Some lamp_states"
    by (simp add: lamp_def)
  have h3: "length lamp_states \<noteq> 1"
    by (simp add: lamp_states_def)
  have h4: "properties lamp = Some [(''lit'', [''true'', ''false'']), (''level'', [''0'', ''1''])]"
    by (simp add: lamp_def)
  have a: "ascii_string ''true'' \<and> ascii_string ''0''" by (simp add: ascii_string_def)
  have k: "''lit'' \<notin> set KNOWN_PROPERTIES \<and> ''level'' \<notin> set KNOWN_PROPERTIES"
    by (simp add: KNOWN_PROPERTIES_def)
  have d: "isdigit ''0''" by (simp add: isdigit_def isdigit_char_def)
  have s: "state_code initial_state = []" by (simp add: initial_state_def)
  have f1: "field_decl ''Lamp'' (''lit'', [''true'', ''false'']) = (''lit'', ''bool'')"
    by code_simp
  have f2: "field_decl ''Lamp'' (''level'', [''0'', ''1'']) = (''level'', ''i32'')"
    by code_simp
  from field_type_from_first_value [OF h1 h2 h3 h4] a k d
  have "state_code (emit ''Lamp'' ''minecraft:lamp'' lamp_checked initial_state)
          = state_code initial_state
            @ render_struct (''Lamp'' @ ''Data'',
                map (field_decl ''Lamp'')
                  [(''lit'', [''true'', ''false'']), (''level'', [''0'', ''1''])])
        \<and> snd (field_decl ''Lamp'' (''lit'', [''true'', ''false''])) = ''bool''
        \<and> snd (field_decl ''Lamp'' (''level'', [''0'', ''1''])) = ''i32''"
    by (simp add: lamp_camel)
  then show ?thesis using h1 h4 by (simp add: s f1 f2 render_field_decl_def)
qed

text \<open>
  C3. The values of a state are typed the way the claim says: the known enum is used
  only when the value is neither a boolean nor a digit string (lines 215 to 221). The
  field of the struct is not: line 174 replaces the type by the known enum whatever the
  values are. For a block \<^verbatim>\<open>minecraft:lamp\<close> whose property \<^verbatim>\<open>half\<close> has the values
  \<^verbatim>\<open>true\<close> and \<^verbatim>\<open>false\<close>, the field is declared \<^verbatim>\<open>Half\<close> and initialised with
  \<^verbatim>\<open>true\<close>.
\<close>

theorem known_property_overrides_bool:
  "prop_type ''Lamp'' ''half'' [''true'', ''false''] = Inr ''Half''
   \<and> rust_prop_val ''Lamp'' ''half'' ''true'' = ''true''
   \<and> map_sum id state_code
        (generate [(''minecraft:lamp'',
           \<lparr>properties = Some [(''half'', [''true'', ''false''])],
            states = Some [\<lparr>state_id = Some 1, state_properties = Some [(''half'', ''true'')]\<rparr>,
                           \<lparr>state_id = Some 2, state_properties = Some [(''half'', ''false'')]\<rparr>]\<rparr>)])
     = Inr (DERIVES @ ''pub struct LampData {pub half: Half,\<newline>}\<newline>\<newline>'')"
  by code_simp
section \<open>Unit and carrier variants\<close>

text \<open>
  C4, as stated, fails: the script decides by the number of states alone
  (\<^verbatim>\<open>single_state = len(states) == 1\<close>) and never looks at the attribute names of a block
  with one state. A block with a single state that has the attribute \<^verbatim>\<open>lit\<close> is written
  as the unit variant \<^verbatim>\<open>Lamp\<close>, not as a carrier.
\<close>

theorem unit_variant_for_single_state_counterexample:
  "map_sum id enum_code
     (generate [(''minecraft:lamp'',
        \<lparr>properties = Some [(''lit'', [''true''])],
         states = Some [\<lparr>state_id = Some 1, state_properties = Some [(''lit'', ''true'')]\<rparr>]\<rparr>)])
   = Inr (DERIVES @ ''pub enum Block {\<newline>Lamp,\<newline>}'')"
  by code_simp

text \<open>
  C4, amended. When the loop body succeeds on a block with exactly one state, it writes
  the unit variant with the single arm of that state in the encoder, in the decoder and
  in \<^verbatim>\<open>name\<close>, and nothing else: no struct, no enum and no arm of
  \<^verbatim>\<open>property_names\<close>. The buffers it leaves do not depend on the attributes the block
  or its state declare. When it succeeds on a block with any other number of states, it
  writes a carrier variant whose payload is the struct named after the block, that
  struct with one field per declared attribute, and an arm of \<^verbatim>\<open>property_names\<close>.
\<close>

theorem unit_variant_iff_single_state:
  assumes "block_step block_identifier obj st = Inr st'" and "states obj = Some sts"
  shows "(length sts = 1 \<longrightarrow>
            (\<exists>n. state_id (hd sts) = Some n
               \<and> st' = st\<lparr>name_code := name_code st @ ''Block::'' @ block_camel block_identifier
                            @ '' => \"'' @ block_identifier @ ''\",\<newline>'',
                          enum_code := enum_code st @ block_camel block_identifier @ '',\<newline>'',
                          block_state_id_code := block_state_id_code st
                            @ ''Block::'' @ block_camel block_identifier
                            @ '' => return '' @ str_int n @ '',\<newline>'',
                          from_block_state_id_code := from_block_state_id_code st
                            @ str_int n @ '' => return Block::''
                            @ block_camel block_identifier @ '',\<newline>''\<rparr>))
       \<and> (length sts \<noteq> 1 \<longrightarrow>
            enum_code st' = enum_code st @ block_camel block_identifier
              @ ''('' @ block_camel block_identifier @ ''Data),\<newline>''
            \<and> (\<exists>props. properties obj = Some props
                 \<and> state_code st' = state_code st
                     @ render_struct (block_camel block_identifier @ ''Data'',
                                      map (field_decl (block_camel block_identifier)) props)
                 \<and> property_names_code st' = property_names_code st
                     @ render_property_keys (block_camel block_identifier,
                         map (\<lambda>(prop_name, vals). process_property_name prop_name) props)))"
proof (cases "length sts = 1")
  case True
  with assms show ?thesis
    by (cases "state_id (hd sts)") (auto simp: block_step_def Let_def block_camel_def)
next
  case False
  from assms(1) obtain cb where cb: "check_block obj = Inr cb"
    and st': "st' = emit (block_camel block_identifier) block_identifier cb st"
    by (auto simp: block_step_render split: sum.splits)
  from cb assms(2) False obtain props ss where props: "properties obj = Some props"
    and multi: "cb = Multi props ss"
    by (auto simp: check_block_def split: option.splits if_splits sum.splits)
  show ?thesis
    using False props
    by (simp add: st' multi emit_def variant_of_def structs_of_def property_keys_of_def)
qed

lemma lit_lamp_step:
  "block_step ''minecraft:lamp'' lit_lamp st
     = Inr (st\<lparr>name_code := name_code st @ ''Block::Lamp => \"minecraft:lamp\",\<newline>'',
               enum_code := enum_code st @ ''Lamp,\<newline>'',
               block_state_id_code := block_state_id_code st @ ''Block::Lamp => return 1,\<newline>'',
               from_block_state_id_code := from_block_state_id_code st
                 @ ''1 => return Block::Lamp,\<newline>''\<rparr>)"
proof -
  have n: "str_int 1 = ''1''" by code_simp
  have c: "snake_to_upper_camel (strip_minecraft_identifier ''minecraft:lamp'') = ''Lamp''"
    using lamp_camel by (simp add: block_camel_def)
  show ?thesis by (simp add: block_step_def lit_lamp_def Let_def c n)
qed

theorem unit_variant_iff_single_state_witness:
  "properties lit_lamp = Some [(''lit'', [''true''])]
   \<and> block_step ''minecraft:lamp'' lit_lamp initial_state
     = Inr (initial_state
          \<lparr>name_code := name_code initial_state @ ''Block::Lamp => \"minecraft:lamp\",\<newline>'',
           enum_code := enum_code initial_state @ ''Lamp,\<newline>'',
           block_state_id_code := block_state_id_code initial_state
             @ ''Block::Lamp => return 1,\<newline>'',
           from_block_state_id_code := from_block_state_id_code initial_state
             @ ''1 => return Block::Lamp,\<newline>''\<rparr>)
   \<and> block_step ''minecraft:lamp'' lamp initial_state
     = Inr (emit ''Lamp'' ''minecraft:lamp'' lamp_checked initial_state)
   \<and> enum_code (emit ''Lamp'' ''minecraft:lamp'' lamp_checked initial_state)
     = enum_code initial_state @ ''Lamp(LampData),\<newline>''
   \<and> state_code (emit ''Lamp'' ''minecraft:lamp'' lamp_checked initial_state)
     = state_code initial_state
       @ DERIVES @ ''pub struct LampData {pub lit: bool,\<newline>pub level: i32,\<newline>}\<newline>\<newline>''"
proof -
  let ?unit = "initial_state
          \<lparr>name_code := name_code initial_state @ ''Block::Lamp => \"minecraft:lamp\",\<newline>'',
           enum_code := enum_code initial_state @ ''Lamp,\<newline>'',
           block_state_id_code := block_state_id_code initial_state
             @ ''Block::Lamp => return 1,\<newline>'',
           from_block_state_id_code := from_block_state_id_code initial_state
             @ ''1 => return Block::Lamp,\<newline>''\<rparr>"
  let ?carrier = "emit ''Lamp'' ''minecraft:lamp'' lamp_checked initial_state"
  have u1: "block_step ''minecraft:lamp'' lit_lamp initial_state = Inr ?unit"
    by (rule lit_lamp_step)
  have u2: "states lit_lamp
              = Some [\<lparr>state_id = Some 1, state_properties = Some [(''lit'', ''true'')]\<rparr>]"
    by (simp add: lit_lamp_def)
  have c1: "block_step ''minecraft:lamp'' lamp initial_state = Inr ?carrier"
    by (rule lamp_step)
  have c2: "states lamp = Some lamp_states" by (simp add: lamp_def)
  have c3: "length lamp_states \<noteq> 1" by (simp add: lamp_states_def)
  have p: "properties lamp = Some [(''lit'', [''true'', ''false'']), (''level'', [''0'', ''1''])]"
    by (simp add: lamp_def)
  have f1: "field_decl ''Lamp'' (''lit'', [''true'', ''false'']) = (''lit'', ''bool'')"
    by code_simp
  have f2: "field_decl ''Lamp'' (''level'', [''0'', ''1'']) = (''level'', ''i32'')"
    by code_simp
  from unit_variant_iff_single_state [OF u1 u2]
  have "state_id (hd [\<lparr>state_id = Some 1, state_properties = Some [(''lit'', ''true'')]\<rparr>])
          = Some 1"
    by simp
  moreover from unit_variant_iff_single_state [OF c1 c2] c3 p
  have "enum_code ?carrier = enum_code initial_state @ ''Lamp(LampData),\<newline>''
      \<and> state_code ?carrier = state_code initial_state
          @ render_struct (''Lamp'' @ ''Data'',
              map (field_decl ''Lamp'')
                [(''lit'', [''true'', ''false'']), (''level'', [''0'', ''1''])])"
    by (simp add: lamp_camel)
  ultimately show ?thesis
    using u1 c1 by (simp add: lit_lamp_def f1 f2 render_field_decl_def)
qed

section \<open>Keys of the property map\<close>

text \<open>
  C7. The key written into \<^verbatim>\<open>m.insert\<close> is taken from \<open>prop_name\<close> after line 185 has
  replaced it by \<open>process_property_name prop_name\<close>, so for the keyword \<^verbatim>\<open>type\<close> the
  key is \<^verbatim>\<open>type_\<close>, not the name of the schema. The generated \<^verbatim>\<open>property_names\<close> of a
  chest inserts under \<^verbatim>\<open>type_\<close>.
\<close>

theorem property_key_is_escaped:
  "map_sum id property_names_code
     (generate [(''minecraft:chest'',
        \<lparr>properties = Some [(''type'', [''single'', ''left''])],
         states = Some [\<lparr>state_id = Some 1, state_properties = Some [(''type'', ''single'')]\<rparr>,
                        \<lparr>state_id = Some 2, state_properties = Some [(''type'', ''left'')]\<rparr>]\<rparr>)])
   = Inr (''pub fn property_names(&self) -> HashMap<&'static str, &'static str> {\<newline>''
          @ ''let mut m = HashMap::new();\<newline>''
          @ ''match self {\<newline>''
          @ ''Block::Chest(data) => {\<newline>''
          @ ''m.insert(\"type_\", (&format!(\"{:?}\", data.type_)).to_snake_case().as_str());''
          @ ''},\<newline>''
          @ ''_ => (),\<newline>}\<newline>m\<newline>}\<newline>'')
   \<and> check_blocks [(''minecraft:chest'',
        \<lparr>properties = Some [(''type'', [''single'', ''left''])],
         states = Some [\<lparr>state_id = Some 1, state_properties = Some [(''type'', ''single'')]\<rparr>,
                        \<lparr>state_id = Some 2, state_properties = Some [(''type'', ''left'')]\<rparr>]\<rparr>)]
     = Inr [(''minecraft:chest'',
           Multi [(''type'', [''single'', ''left''])]
                 [(1, [(''type'', ''single'')]), (2, [(''type'', ''left'')])])]
   \<and> run_property_names
        (property_keys [(''minecraft:chest'',
           Multi [(''type'', [''single'', ''left''])]
                 [(1, [(''type'', ''single'')]), (2, [(''type'', ''left'')])])])
        (DataValue ''Chest'' [(''type_'', VEnum ''ChestType'' ''Single'')])
     = [''type_'']"
  by code_simp

section \<open>The camel-casing of names\<close>

lemma py_split_not_Nil: "py_split sep s \<noteq> []"
  by (induction s) (auto split: list.splits)

lemma py_join_py_split: "py_join [sep] (py_split sep s) = s"
proof (induction s)
  case Nil
  then show ?case by simp
next
  case (Cons c s)
  obtain w ws where ws: "py_split sep s = w # ws"
    using py_split_not_Nil [of sep s] by (cases "py_split sep s") auto
  show ?case
  proof (cases "c = sep")
    case True
    then show ?thesis using Cons ws by simp
  next
    case False
    then show ?thesis using Cons ws by (cases ws) simp_all
  qed
qed

lemma digit_not_cased: "isascii_digit c \<Longrightarrow> \<not> islower c \<and> \<not> isupper c"
  by (auto simp: isascii_digit_def islower_def isupper_def)

lemma title_from_digits: "list_all isascii_digit cs \<Longrightarrow> title_from b cs = cs"
  by (induction cs arbitrary: b) (auto simp: digit_not_cased)

lemma digits_letters_then_digits: "list_all isascii_digit cs \<Longrightarrow> letters_then_digits cs"
  by (cases cs) (auto simp: digit_not_cased)

lemma letters_then_digits_tl: "letters_then_digits (c # cs) \<Longrightarrow> letters_then_digits cs"
  by (auto simp: digits_letters_then_digits split: if_splits)

lemma letters_then_digits_hd:
  "letters_then_digits (c # cs) \<Longrightarrow> islower c \<or> isascii_digit c"
  by (auto split: if_splits)

lemma title_from_True_plain: "letters_then_digits cs \<Longrightarrow> title_from True cs = cs"
proof (induction cs)
  case Nil
  then show ?case by simp
next
  case (Cons c cs)
  show ?case
  proof (cases "islower c")
    case True
    then show ?thesis using Cons by simp
  next
    case False
    then have "list_all isascii_digit (c # cs)" using Cons.prems by simp
    then show ?thesis by (rule title_from_digits)
  qed
qed

lemma title_plain:
  "plain_component w \<Longrightarrow>
   \<exists>c cs. w = c # cs \<and> islower c \<and> letters_then_digits cs \<and> title w = upper c # cs"
  by (cases w) (auto simp: plain_component_def title_def title_from_True_plain)

lemma upper_code: "islower c \<Longrightarrow> (of_char (upper c) :: nat) = of_char c - 32"
proof -
  assume h: "islower c"
  then have "((of_char c :: nat) - 32) mod 256 = of_char c - 32"
    unfolding islower_def by (intro mod_less) linarith
  then show ?thesis using h by (simp add: upper_def)
qed

lemma upper_inj: "islower a \<Longrightarrow> islower b \<Longrightarrow> upper a = upper b \<Longrightarrow> a = b"
proof -
  assume a: "islower a" and b: "islower b" and e: "upper a = upper b"
  from e have "(of_char (upper a) :: nat) = of_char (upper b)" by simp
  then have "(of_char a :: nat) - 32 = of_char b - 32"
    using a b by (simp add: upper_code)
  then have "(of_char a :: nat) = of_char b" using a b unfolding islower_def by arith
  then show "a = b" by simp
qed

lemma upper_is_upper: "islower c \<Longrightarrow> isupper (upper c)"
  unfolding isupper_def by (simp add: upper_code) (simp add: islower_def, arith)

lemma upper_not_plain: "isupper c \<Longrightarrow> \<not> islower c \<and> \<not> isascii_digit c"
  by (auto simp: isascii_digit_def islower_def isupper_def)

lemma tails_agree:
  "letters_then_digits as \<Longrightarrow> letters_then_digits bs \<Longrightarrow>
   (X = [] \<or> isupper (hd X)) \<Longrightarrow> (Y = [] \<or> isupper (hd Y)) \<Longrightarrow>
   as @ X = bs @ Y \<Longrightarrow> as = bs \<and> X = Y"
proof (induction as arbitrary: bs)
  case Nil
  show ?case
  proof (cases bs)
    case Nil
    then show ?thesis using Nil.prems by simp
  next
    case (Cons b bs')
    then have "X = b # bs' @ Y" using Nil.prems by simp
    then have "isupper b" using Nil.prems(3) by auto
    moreover have "islower b \<or> isascii_digit b"
      using Nil.prems(2) Cons letters_then_digits_hd by blast
    ultimately show ?thesis using upper_not_plain by blast
  qed
next
  case (Cons a as)
  show ?case
  proof (cases bs)
    case Nil
    then have "Y = a # as @ X" using Cons.prems by simp
    then have "isupper a" using Cons.prems(4) by auto
    moreover have "islower a \<or> isascii_digit a"
      using Cons.prems(1) letters_then_digits_hd by blast
    ultimately show ?thesis using upper_not_plain by blast
  next
    case (Cons b bs')
    then have ab: "a = b" and rest: "as @ X = bs' @ Y" using Cons.prems by simp_all
    have "letters_then_digits as" using Cons.prems(1) by (rule letters_then_digits_tl)
    moreover have "letters_then_digits bs'"
      using Cons.prems(2) Cons letters_then_digits_tl by blast
    ultimately have "as = bs' \<and> X = Y"
      using Cons.IH [of bs'] Cons.prems(3,4) rest by blast
    then show ?thesis using ab Cons by simp
  qed
qed

lemma concat_title_plain_hd:
  "list_all plain_component ws \<Longrightarrow>
   concat (map title ws) = [] \<or> isupper (hd (concat (map title ws)))"
proof (cases ws)
  case Nil
  then show ?thesis by simp
next
  case (Cons w ws')
  assume "list_all plain_component ws"
  then have "plain_component w" using Cons by simp
  from title_plain [OF this] obtain c cs where "islower c" "title w = upper c # cs" by blast
  then show ?thesis using Cons upper_is_upper by simp
qed

lemma components_agree:
  "list_all plain_component xs \<Longrightarrow> list_all plain_component ys \<Longrightarrow>
   concat (map title xs) = concat (map title ys) \<Longrightarrow> xs = ys"
proof (induction xs arbitrary: ys)
  case Nil
  show ?case
  proof (cases ys)
    case Nil
    then show ?thesis by simp
  next
    case (Cons y ys')
    then have "plain_component y" using Nil.prems by simp
    from title_plain [OF this] obtain c cs where "title y = upper c # cs" by blast
    then show ?thesis using Nil.prems Cons by simp
  qed
next
  case (Cons x xs)
  from Cons.prems(1) have px: "plain_component x" and pxs: "list_all plain_component xs"
    by simp_all
  from title_plain [OF px] obtain a as where x: "x = a # as" and la: "islower a"
    and las: "letters_then_digits as" and tx: "title x = upper a # as" by blast
  show ?case
  proof (cases ys)
    case Nil
    then show ?thesis using Cons.prems tx by simp
  next
    case (Cons y ys')
    from Cons.prems(2) Cons have py: "plain_component y" and pys: "list_all plain_component ys'"
      by simp_all
    from title_plain [OF py] obtain b bs where y: "y = b # bs" and lb: "islower b"
      and lbs: "letters_then_digits bs" and ty: "title y = upper b # bs" by blast
    from Cons.prems(3) Cons tx ty
    have u: "upper a = upper b"
      and r: "as @ concat (map title xs) = bs @ concat (map title ys')" by simp_all
    from upper_inj [OF la lb u] have ab: "a = b" .
    from tails_agree [OF las lbs concat_title_plain_hd [OF pxs] concat_title_plain_hd [OF pys] r]
    have asbs: "as = bs" and c: "concat (map title xs) = concat (map title ys')" by simp_all
    from Cons.IH [OF pxs pys c] have "xs = ys'" .
    then show ?thesis using Cons x y ab asbs by simp
  qed
qed

text \<open>
  C9, as stated, fails: the camel-casing is not injective on names with embedded
  numerals or underscores. \<^verbatim>\<open>x_1\<close> and \<^verbatim>\<open>x1\<close> both become \<^verbatim>\<open>X1\<close>, \<^verbatim>\<open>a__b\<close> and
  \<^verbatim>\<open>a_b\<close> both become \<^verbatim>\<open>AB\<close>, \<^verbatim>\<open>a1b\<close> and \<^verbatim>\<open>a1_b\<close> both become \<^verbatim>\<open>A1B\<close>, and
  \<^verbatim>\<open>aB\<close> and \<^verbatim>\<open>ab\<close> both become \<^verbatim>\<open>Ab\<close>, so no transform of the generated name gives
  back both names; the enum written for \<open>mode_lamp\<close> has the variant \<^verbatim>\<open>X1\<close> twice.
\<close>

theorem camel_case_not_injective_counterexample:
  "snake_to_upper_camel ''x_1'' = ''X1'' \<and> snake_to_upper_camel ''x1'' = ''X1''
   \<and> snake_to_upper_camel ''a__b'' = ''AB'' \<and> snake_to_upper_camel ''a_b'' = ''AB''
   \<and> snake_to_upper_camel ''a1b'' = ''A1B'' \<and> snake_to_upper_camel ''a1_b'' = ''A1B''
   \<and> snake_to_upper_camel ''aB'' = ''Ab'' \<and> snake_to_upper_camel ''ab'' = ''Ab''
   \<and> \<not> (\<exists>to_snake_case. to_snake_case (snake_to_upper_camel ''x_1'') = ''x_1''
                          \<and> to_snake_case (snake_to_upper_camel ''x1'') = ''x1'')
   \<and> map_sum id end_code (generate [(''minecraft:lamp'', mode_lamp)])
     = Inr (initial_end_code @ DERIVES @ ''pub enum LampMode {X1,\<newline>X1,\<newline>}\<newline>\<newline>'')"
proof -
  have a: "snake_to_upper_camel ''x_1'' = ''X1''" by code_simp
  have b: "snake_to_upper_camel ''x1'' = ''X1''" by code_simp
  have c: "snake_to_upper_camel ''a__b'' = ''AB''" by code_simp
  have d: "snake_to_upper_camel ''a_b'' = ''AB''" by code_simp
  have f: "snake_to_upper_camel ''a1b'' = ''A1B'' \<and> snake_to_upper_camel ''a1_b'' = ''A1B''"
    by code_simp
  have g: "snake_to_upper_camel ''aB'' = ''Ab'' \<and> snake_to_upper_camel ''ab'' = ''Ab''"
    by code_simp
  have e: "map_sum id end_code (generate [(''minecraft:lamp'', mode_lamp)])
     = Inr (initial_end_code @ DERIVES @ ''pub enum LampMode {X1,\<newline>X1,\<newline>}\<newline>\<newline>'')"
    by code_simp
  show ?thesis by (auto simp: a b c d e f g)
qed

text \<open>
  C9, amended: the camel-casing is injective on plain names, those whose components
  between underscores are each a lower-case ASCII letter followed by lower-case letters
  and then digits. Two plain names have the same camel-case form only if they are the
  same name, so on these names the generated name determines the schema name.
\<close>

theorem camel_case_injective_on_plain_names:
  assumes "plain_snake s" and "plain_snake t"
  shows "(snake_to_upper_camel s = snake_to_upper_camel t) = (s = t)"
proof
  assume "snake_to_upper_camel s = snake_to_upper_camel t"
  with assms have "py_split CHR ''_'' s = py_split CHR ''_'' t"
    unfolding plain_snake_def snake_to_upper_camel_def by (intro components_agree)
  then have "py_join ''_'' (py_split CHR ''_'' s) = py_join ''_'' (py_split CHR ''_'' t)"
    by simp
  then show "s = t" by (simp add: py_join_py_split)
next
  assume "s = t"
  then show "snake_to_upper_camel s = snake_to_upper_camel t" by simp
qed

theorem camel_case_injective_on_plain_names_witness:
  "plain_snake ''inner_left'' \<and> plain_snake ''x1'' \<and> plain_snake ''inner_left1''
   \<and> snake_to_upper_camel ''inner_left'' = ''InnerLeft''
   \<and> snake_to_upper_camel ''x1'' = ''X1''
   \<and> snake_to_upper_camel ''inner_left'' \<noteq> snake_to_upper_camel ''inner_left1''"
proof -
  have p: "plain_snake ''inner_left''" by code_simp
  have q: "plain_snake ''x1''" by code_simp
  have r: "plain_snake ''inner_left1''" by code_simp
  have c: "snake_to_upper_camel ''inner_left'' = ''InnerLeft''" by code_simp
  have d: "snake_to_upper_camel ''x1'' = ''X1''" by code_simp
  from camel_case_injective_on_plain_names [OF p r] show ?thesis using p q r c d by simp
qed

section \<open>The function name\<close>

lemma generate_name_code:
  "generate data = Inr st \<Longrightarrow> check_blocks data = Inr cbs \<Longrightarrow>
   name_code st = name_code initial_state @ concat (map render_name_arm (name_arms cbs))
                  @ ''}\<newline>}\<newline>''"
  by (auto simp: generate_render emit_all_render finish_def)

lemma run_name_unit:
  "distinct (map block_camel (map fst cbs)) \<Longrightarrow> (block_identifier, Single i) \<in> set cbs \<Longrightarrow>
   run_name (name_arms cbs) (UnitValue (block_camel block_identifier)) = Some block_identifier"
proof (induction cbs)
  case Nil
  then show ?case by simp
next
  case (Cons p cbs)
  obtain i' cb' where p: "p = (i', cb')" by (cases p)
  show ?case
  proof (cases "(block_identifier, Single i) = p")
    case True
    then have p': "p = (block_identifier, Single i)" by simp
    show ?thesis unfolding p' by (simp add: name_arms_def name_arm_of_def)
  next
    case False
    then have m: "(block_identifier, Single i) \<in> set cbs" using Cons.prems(2) by simp
    then have "block_camel block_identifier \<in> set (map block_camel (map fst cbs))" by force
    moreover have "block_camel i' \<notin> set (map block_camel (map fst cbs))"
      using Cons.prems(1) p by simp
    ultimately have ne: "block_camel i' \<noteq> block_camel block_identifier" by metis
    have "run_name (name_arms cbs) (UnitValue (block_camel block_identifier))
            = Some block_identifier"
      using Cons.IH Cons.prems(1) m by simp
    then show ?thesis using ne p
      by (cases cb') (simp_all add: name_arms_def name_arm_of_def)
  qed
qed

lemma run_name_data:
  "distinct (map block_camel (map fst cbs)) \<Longrightarrow> (block_identifier, Multi props ss) \<in> set cbs \<Longrightarrow>
   run_name (name_arms cbs) (DataValue (block_camel block_identifier) payload)
     = Some block_identifier"
proof (induction cbs)
  case Nil
  then show ?case by simp
next
  case (Cons p cbs)
  obtain i' cb' where p: "p = (i', cb')" by (cases p)
  show ?case
  proof (cases "(block_identifier, Multi props ss) = p")
    case True
    then have p': "p = (block_identifier, Multi props ss)" by simp
    show ?thesis unfolding p' by (simp add: name_arms_def name_arm_of_def)
  next
    case False
    then have m: "(block_identifier, Multi props ss) \<in> set cbs" using Cons.prems(2) by simp
    then have "block_camel block_identifier \<in> set (map block_camel (map fst cbs))" by force
    moreover have "block_camel i' \<notin> set (map block_camel (map fst cbs))"
      using Cons.prems(1) p by simp
    ultimately have ne: "block_camel i' \<noteq> block_camel block_identifier" by metis
    have "run_name (name_arms cbs) (DataValue (block_camel block_identifier) payload)
            = Some block_identifier"
      using Cons.IH Cons.prems(1) m by simp
    then show ?thesis using ne p
      by (cases cb') (simp_all add: name_arms_def name_arm_of_def)
  qed
qed

text \<open>
  C8, as stated, fails. The string returned by \<^verbatim>\<open>name\<close> is the key of the block in the
  document, namespace included: for the block \<^verbatim>\<open>minecraft:torch\<close> the arm is
  \<^verbatim>\<open>Block::Torch => "minecraft:torch"\<close>, not \<^verbatim>\<open>"torch"\<close>. A block whose key is
  \<^verbatim>\<open>torch\<close> itself loses its whole name to the removal of the first ten characters and
  gets the arm \<^verbatim>\<open>Block:: => "torch"\<close>. And two blocks with the same camel-case name,
  \<^verbatim>\<open>minecraft:x_1\<close> and \<^verbatim>\<open>minecraft:x1\<close>, get two arms with the same pattern, of which
  the first is taken: the value of the second block is given the identifier of the first.
\<close>

theorem name_of_torch_counterexample:
  "map_sum id name_code (generate [(''minecraft:torch'', torch)])
     = Inr (''pub fn name(&self) -> &'static str {\<newline>match self {\<newline>''
            @ ''Block::Torch => \"minecraft:torch\",\<newline>'' @ ''}\<newline>}\<newline>'')
   \<and> check_blocks [(''minecraft:torch'', torch)] = Inr [(''minecraft:torch'', Single 5)]
   \<and> run_name (name_arms [(''minecraft:torch'', Single 5)]) (UnitValue ''Torch'')
     = Some ''minecraft:torch''
   \<and> ''minecraft:torch'' \<noteq> ''torch''
   \<and> map_sum id name_code (generate [(''torch'', torch)])
     = Inr (''pub fn name(&self) -> &'static str {\<newline>match self {\<newline>''
            @ ''Block:: => \"torch\",\<newline>'' @ ''}\<newline>}\<newline>'')
   \<and> map_sum id name_code
         (generate [(''minecraft:x_1'', torch), (''minecraft:x1'', lit_lamp)])
     = Inr (''pub fn name(&self) -> &'static str {\<newline>match self {\<newline>''
            @ ''Block::X1 => \"minecraft:x_1\",\<newline>''
            @ ''Block::X1 => \"minecraft:x1\",\<newline>'' @ ''}\<newline>}\<newline>'')
   \<and> check_blocks [(''minecraft:x_1'', torch), (''minecraft:x1'', lit_lamp)]
     = Inr [(''minecraft:x_1'', Single 5), (''minecraft:x1'', Single 1)]
   \<and> block_camel ''minecraft:x1'' = ''X1''
   \<and> run_name (name_arms [(''minecraft:x_1'', Single 5), (''minecraft:x1'', Single 1)])
        (UnitValue ''X1'')
     = Some ''minecraft:x_1''"
  by code_simp

text \<open>
  C8, amended. When the script succeeds on a document in which no two blocks have the
  same camel-case name, \<^verbatim>\<open>name\<close> consists of one arm per block, and on the value of a
  block it returns the key of that block in the document, whole (as in
  \<^verbatim>\<open>minecraft:torch\<close>): on the unit value when the block has one state, and on the
  carrier value with any payload otherwise.
\<close>

theorem name_returns_block_identifier:
  assumes "generate data = Inr st"
    and "distinct (map block_camel (map fst data))"
    and "(block_identifier, obj) \<in> set data"
    and "states obj = Some sts"
  shows "\<exists>cbs. check_blocks data = Inr cbs
           \<and> name_code st = name_code initial_state
                             @ concat (map render_name_arm (name_arms cbs)) @ ''}\<newline>}\<newline>''
           \<and> (if length sts = 1
              then run_name (name_arms cbs) (UnitValue (block_camel block_identifier))
                     = Some block_identifier
              else \<forall>payload.
                     run_name (name_arms cbs) (DataValue (block_camel block_identifier) payload)
                       = Some block_identifier)"
proof -
  from generate_checked [OF assms(1)] obtain cbs where cbs: "check_blocks data = Inr cbs" ..
  from check_blocks_mem [OF cbs assms(3)] obtain cb where cb: "check_block obj = Inr cb"
    and m: "(block_identifier, cb) \<in> set cbs" by blast
  have d: "distinct (map block_camel (map fst cbs))"
    using assms(2) check_blocks_fst [OF cbs] by simp
  have "if length sts = 1
        then run_name (name_arms cbs) (UnitValue (block_camel block_identifier))
               = Some block_identifier
        else \<forall>payload.
               run_name (name_arms cbs) (DataValue (block_camel block_identifier) payload)
                 = Some block_identifier"
    using check_block_Single [OF cb assms(4)] m run_name_unit [OF d] run_name_data [OF d]
    by auto
  then show ?thesis using cbs generate_name_code [OF assms(1) cbs] by blast
qed

theorem name_returns_block_identifier_witness:
  "generate [(''minecraft:torch'', torch), (''minecraft:lamp'', lamp)]
     = Inr (finish (emit_all [(''minecraft:torch'', Single 5), (''minecraft:lamp'', lamp_checked)]
                      initial_state))
   \<and> distinct (map block_camel [''minecraft:torch'', ''minecraft:lamp''])
   \<and> name_code (finish (emit_all [(''minecraft:torch'', Single 5),
                                     (''minecraft:lamp'', lamp_checked)] initial_state))
     = ''pub fn name(&self) -> &'static str {\<newline>match self {\<newline>''
       @ ''Block::Torch => \"minecraft:torch\",\<newline>''
       @ ''Block::Lamp(_) => \"minecraft:lamp\",\<newline>'' @ ''}\<newline>}\<newline>''
   \<and> run_name (name_arms [(''minecraft:torch'', Single 5), (''minecraft:lamp'', lamp_checked)])
        (UnitValue ''Torch'') = Some ''minecraft:torch''
   \<and> (\<forall>payload.
        run_name (name_arms [(''minecraft:torch'', Single 5), (''minecraft:lamp'', lamp_checked)])
          (DataValue ''Lamp'' payload) = Some ''minecraft:lamp'')"
proof -
  let ?data = "[(''minecraft:torch'', torch), (''minecraft:lamp'', lamp)]"
  let ?cbs = "[(''minecraft:torch'', Single 5), (''minecraft:lamp'', lamp_checked)]"
  have g: "generate ?data = Inr (finish (emit_all ?cbs initial_state))"
    by (simp only: generate_render torch_lamp_check sum.case)
  have c: "block_camel ''minecraft:torch'' = ''Torch'' \<and> block_camel ''minecraft:lamp'' = ''Lamp''"
    by code_simp
  have d: "distinct (map block_camel (map fst ?data))" using c by simp
  have m1: "(''minecraft:torch'', torch) \<in> set ?data" by simp
  have m2: "(''minecraft:lamp'', lamp) \<in> set ?data" by simp
  have s1: "states torch = Some [\<lparr>state_id = Some 5, state_properties = None\<rparr>]"
    by (simp add: torch_def)
  have s2: "states lamp = Some lamp_states" by (simp add: lamp_def)
  have l2: "length lamp_states \<noteq> 1" by (simp add: lamp_states_def)
  have n: "name_code initial_state @ concat (map render_name_arm (name_arms ?cbs)) @ ''}\<newline>}\<newline>''
     = ''pub fn name(&self) -> &'static str {\<newline>match self {\<newline>''
       @ ''Block::Torch => \"minecraft:torch\",\<newline>''
       @ ''Block::Lamp(_) => \"minecraft:lamp\",\<newline>'' @ ''}\<newline>}\<newline>''"
    by code_simp
  from name_returns_block_identifier [OF g d m1 s1]
  have t: "name_code (finish (emit_all ?cbs initial_state))
             = name_code initial_state @ concat (map render_name_arm (name_arms ?cbs))
               @ ''}\<newline>}\<newline>''
           \<and> run_name (name_arms ?cbs) (UnitValue ''Torch'') = Some ''minecraft:torch''"
    using torch_lamp_check c by simp
  from name_returns_block_identifier [OF g d m2 s2]
  have l: "\<forall>payload. run_name (name_arms ?cbs) (DataValue ''Lamp'' payload)
                       = Some ''minecraft:lamp''"
    using torch_lamp_check c l2 by simp
  show ?thesis using g c t l n by simp
qed
section \<open>The run of the script\<close>

lemma fout_write_takeWhile:
  "fout_write ws written =
     (written @ concat (takeWhile ascii_string ws),
      if list_all ascii_string ws then None else Some UnicodeEncodeError)"
  by (induction ws arbitrary: written) simp_all

lemma concat_writes: "concat (writes st) = output_text st"
  by (simp add: writes_def output_text_def)

lemma takeWhile_all: "list_all P xs \<Longrightarrow> takeWhile P xs = xs"
  by (induction xs) simp_all

lemma torch_check: "check_blocks [(''minecraft:torch'', torch)] = Inr [(''minecraft:torch'', Single 5)]"
  by code_simp

text \<open>
  C6, as stated, fails. The output file is opened with mode \<^verbatim>\<open>w+\<close> (line 76) before
  \<^verbatim>\<open>json.load\<close> is called (line 80), so it is created or emptied before the report is
  read. When the report is not JSON, or when a block lacks the key \<^verbatim>\<open>states\<close>, the run
  ends with status 1 and the output file of an earlier run is left empty. When a block
  name is not ASCII, the fourth call of \<^verbatim>\<open>fout.write\<close> raises and the file is left
  with the text of the first three calls.
\<close>

theorem failed_load_truncates_output_counterexample:
  "files old_files ''blocks.json'' = Some ''{''
   \<and> files old_files ''lib.rs'' = Some ''// old''
   \<and> fst (main (\<lambda>text. Inl ValueError) [''blocks.py'', ''blocks.json'', ''lib.rs''] old_files) = 1
   \<and> files (snd (main (\<lambda>text. Inl ValueError) [''blocks.py'', ''blocks.json'', ''lib.rs'']
                    old_files)) ''lib.rs'' = Some ''''
   \<and> fst (main (\<lambda>text. Inr [(''minecraft:torch'', \<lparr>properties = None, states = None\<rparr>)])
             [''blocks.py'', ''blocks.json'', ''lib.rs''] old_files) = 1
   \<and> files (snd (main (\<lambda>text. Inr [(''minecraft:torch'', \<lparr>properties = None, states = None\<rparr>)])
                    [''blocks.py'', ''blocks.json'', ''lib.rs''] old_files)) ''lib.rs'' = Some ''''
   \<and> fst (main (\<lambda>text. Inr [(''minecraft:'' @ [CHR 0xE9], torch)])
             [''blocks.py'', ''blocks.json'', ''lib.rs''] old_files) = 1
   \<and> files (snd (main (\<lambda>text. Inr [(''minecraft:'' @ [CHR 0xE9], torch)])
                    [''blocks.py'', ''blocks.json'', ''lib.rs''] old_files)) ''lib.rs''
     = Some (''// This file was generated by /scripts/blocks.py\<newline>\<newline>''
             @ ''use std::collections::HashMap;\<newline>'' @ ''use heck::SnakeCase;\<newline>\<newline>'')"
  by code_simp

text \<open>
  C6, amended. With fewer than two arguments, or when the input file does not exist or
  one of the two files cannot be opened, the run ends with status 1 and leaves the files
  as they were. Once both files are open, a run in which \<^verbatim>\<open>json.load\<close> raises or the
  loop over the blocks raises ends with status 1 and leaves the output file empty,
  whatever it held before, and the other files as they were. When the loop succeeds,
  the run ends with status 0 and the whole output in the file if every written text is
  ASCII; otherwise it ends with status 1 and the file holds the texts written before
  the first one that is not ASCII.
\<close>

theorem failed_load_leaves_output_empty:
  "(length argv < 3 \<longrightarrow> main json_load argv fs = (1, fs))
   \<and> (files fs in_path = None \<or> \<not> updatable fs in_path \<or> \<not> updatable fs out_path \<longrightarrow>
        main json_load (script # in_path # out_path # rest) fs = (1, fs))
   \<and> (files fs in_path = Some text \<and> updatable fs in_path \<and> updatable fs out_path \<longrightarrow>
        (\<forall>e. json_load (if in_path = out_path then '''' else text) = Inl e \<longrightarrow>
           main json_load (script # in_path # out_path # rest) fs
             = (1, fs\<lparr>files := (files fs)(out_path \<mapsto> '''')\<rparr>))
      \<and> (\<forall>data e. json_load (if in_path = out_path then '''' else text) = Inr data
                    \<and> generate data = Inl e \<longrightarrow>
           main json_load (script # in_path # out_path # rest) fs
             = (1, fs\<lparr>files := (files fs)(out_path \<mapsto> '''')\<rparr>))
      \<and> (\<forall>data st. json_load (if in_path = out_path then '''' else text) = Inr data
                     \<and> generate data = Inr st \<longrightarrow>
           main json_load (script # in_path # out_path # rest) fs
             = (if list_all ascii_string (writes st)
                then (0, fs\<lparr>files := (files fs)(out_path \<mapsto> output_text st)\<rparr>)
                else (1, fs\<lparr>files := (files fs)(out_path \<mapsto>
                                   concat (takeWhile ascii_string (writes st)))\<rparr>))))"
proof (intro conjI impI allI)
  assume "length argv < 3"
  then show "main json_load argv fs = (1, fs)"
    by (auto simp: main_def split: list.splits)
next
  assume "files fs in_path = None \<or> \<not> updatable fs in_path \<or> \<not> updatable fs out_path"
  then show "main json_load (script # in_path # out_path # rest) fs = (1, fs)"
    by (auto simp: main_def split: option.splits)
next
  fix e
  assume "files fs in_path = Some text \<and> updatable fs in_path \<and> updatable fs out_path"
    and "json_load (if in_path = out_path then '''' else text) = Inl e"
  then show "main json_load (script # in_path # out_path # rest) fs
               = (1, fs\<lparr>files := (files fs)(out_path \<mapsto> '''')\<rparr>)"
    by (simp add: main_def Let_def)
next
  fix data e
  assume "files fs in_path = Some text \<and> updatable fs in_path \<and> updatable fs out_path"
    and "json_load (if in_path = out_path then '''' else text) = Inr data \<and> generate data = Inl e"
  then show "main json_load (script # in_path # out_path # rest) fs
               = (1, fs\<lparr>files := (files fs)(out_path \<mapsto> '''')\<rparr>)"
    by (simp add: main_def Let_def)
next
  fix data st
  assume "files fs in_path = Some text \<and> updatable fs in_path \<and> updatable fs out_path"
    and "json_load (if in_path = out_path then '''' else text) = Inr data \<and> generate data = Inr st"
  then show "main json_load (script # in_path # out_path # rest) fs
           = (if list_all ascii_string (writes st)
              then (0, fs\<lparr>files := (files fs)(out_path \<mapsto> output_text st)\<rparr>)
              else (1, fs\<lparr>files := (files fs)(out_path \<mapsto>
                                 concat (takeWhile ascii_string (writes st)))\<rparr>))"
    by (simp add: main_def Let_def fout_write_takeWhile takeWhile_all concat_writes)
qed

theorem failed_load_leaves_output_empty_witness:
  "main (\<lambda>text. Inl ValueError) [''blocks.py'', ''blocks.json'', ''lib.rs''] old_files
     = (1, old_files\<lparr>files := (files old_files)(''lib.rs'' \<mapsto> '''')\<rparr>)
   \<and> main (\<lambda>text. Inr [(''minecraft:torch'', torch)]) [''blocks.py'', ''blocks.json'', ''lib.rs'']
        old_files
     = (0, old_files\<lparr>files := (files old_files)(''lib.rs'' \<mapsto>
             output_text (finish (emit_all [(''minecraft:torch'', Single 5)] initial_state)))\<rparr>)
   \<and> main (\<lambda>text. Inl ValueError) [''blocks.py'', ''missing.json'', ''lib.rs''] old_files
     = (1, old_files)"
proof -
  let ?st = "finish (emit_all [(''minecraft:torch'', Single 5)] initial_state)"
  have f: "files old_files ''blocks.json'' = Some ''{''" by (simp add: old_files_def)
  have m: "files old_files ''missing.json'' = None" by (simp add: old_files_def)
  have u: "updatable old_files ''blocks.json'' \<and> updatable old_files ''lib.rs''"
    by (simp add: old_files_def)
  have n: "''blocks.json'' \<noteq> ''lib.rs''" by simp
  have g: "generate [(''minecraft:torch'', torch)] = Inr ?st"
    by (simp only: generate_render torch_check sum.case)
  have a: "list_all ascii_string (writes ?st)" by code_simp
  have 1: "main (\<lambda>text. Inl ValueError) [''blocks.py'', ''blocks.json'', ''lib.rs''] old_files
             = (1, old_files\<lparr>files := (files old_files)(''lib.rs'' \<mapsto> '''')\<rparr>)"
    using failed_load_leaves_output_empty
      [of _ "\<lambda>text. Inl ValueError" old_files "''blocks.json''" "''lib.rs''" "''blocks.py''" "[]" "''{''"]
      f u n by simp
  have 2: "main (\<lambda>text. Inr [(''minecraft:torch'', torch)]) [''blocks.py'', ''blocks.json'', ''lib.rs'']
             old_files
           = (0, old_files\<lparr>files := (files old_files)(''lib.rs'' \<mapsto> output_text ?st)\<rparr>)"
    using failed_load_leaves_output_empty
      [of _ "\<lambda>text. Inr [(''minecraft:torch'', torch)]" old_files "''blocks.json''" "''lib.rs''"
          "''blocks.py''" "[]" "''{''"]
      f u n g a by simp
  have 3: "main (\<lambda>text. Inl ValueError) [''blocks.py'', ''missing.json'', ''lib.rs''] old_files
             = (1, old_files)"
    using failed_load_leaves_output_empty
      [of _ "\<lambda>text. Inl ValueError" old_files "''missing.json''" "''lib.rs''" "''blocks.py''" "[]"]
      m by simp
  show ?thesis using 1 2 3 by simp
qed
section \<open>The codes of the decoder\<close>

lemma generate_isl: "isl (generate data) = isl (check_blocks data)"
  by (cases "check_blocks data") (simp_all add: generate_render)

lemma check_state_renumber: "isl (check_state (renumber_state f state)) = isl (check_state state)"
  by (auto simp: check_state_def renumber_state_def split: option.splits)

lemma check_states_isl: "isl (check_states sts) = list_ex (\<lambda>state. isl (check_state state)) sts"
  by (induction sts) (auto split: sum.splits)

lemma check_states_renumber:
  "isl (check_states (map (renumber_state f) sts)) = isl (check_states sts)"
  unfolding check_states_isl by (induction sts) (simp_all add: check_state_renumber)

lemma check_block_renumber: "isl (check_block (renumber_block f obj)) = isl (check_block obj)"
proof (cases "states obj")
  case None
  then show ?thesis by (simp add: check_block_def renumber_block_def)
next
  case (Some sts)
  show ?thesis
  proof (cases "length sts = 1")
    case True
    then obtain s where s: "sts = [s]" by (cases sts) auto
    show ?thesis using Some s
      by (auto simp: check_block_def renumber_block_def renumber_state_def split: option.splits)
  next
    case False
    show ?thesis
    proof (cases "properties obj")
      case None
      then show ?thesis using Some False by (simp add: check_block_def renumber_block_def)
    next
      case (Some props)
      have "isl (case check_states (map (renumber_state f) sts) of Inl e \<Rightarrow> Inl e
                     | Inr ss \<Rightarrow> Inr (Multi props ss))
            = isl (case check_states sts of Inl e \<Rightarrow> Inl e
                     | Inr ss \<Rightarrow> Inr (Multi props ss))"
        using check_states_renumber [of f sts]
        by (cases "check_states (map (renumber_state f) sts)"; cases "check_states sts") auto
      then show ?thesis using Some \<open>states obj = Some sts\<close> False
        by (simp add: check_block_def renumber_block_def)
    qed
  qed
qed

lemma check_blocks_isl:
  "isl (check_blocks data) = list_ex (\<lambda>(block_identifier, obj). isl (check_block obj)) data"
  by (induction data) (auto split: sum.splits)

lemma check_blocks_renumber: "isl (check_blocks (renumber f data)) = isl (check_blocks data)"
  unfolding check_blocks_isl renumber_def
  by (induction data) (auto simp: check_block_renumber)

lemma generate_renumber: "isl (generate (renumber f data)) = isl (generate data)"
  by (simp add: generate_isl check_blocks_renumber)

text \<open>
  C5, as stated, fails. The script never compares the codes of two states: no error for
  a repeated code exists in it. For a document in which the two blocks \<^verbatim>\<open>torch\<close> and
  \<^verbatim>\<open>lamp\<close> both have the code 5, the run succeeds and the decoder is written with the
  two arms \<^verbatim>\<open>5 => return Block::Torch\<close> and \<^verbatim>\<open>5 => return Block::Lamp\<close>, of which
  the first is taken.
\<close>

theorem duplicate_code_counterexample:
  "state_ids [(''minecraft:torch'', torch), (''minecraft:lamp'', torch)] = [5, 5]
   \<and> map_sum id from_block_state_id_code
        (generate [(''minecraft:torch'', torch), (''minecraft:lamp'', torch)])
     = Inr (''pub fn from_block_state_id(id: u16) -> Self {\<newline>match id {''
            @ ''5 => return Block::Torch,\<newline>''
            @ ''5 => return Block::Lamp,\<newline>''
            @ ''_ => panic!(\"Unknown block state ID {}\", id),''
            @ ''\<newline>}panic!(\"Invalid block state ID {}\", id);\<newline>}\<newline>'')
   \<and> check_blocks [(''minecraft:torch'', torch), (''minecraft:lamp'', torch)]
     = Inr [(''minecraft:torch'', Single 5), (''minecraft:lamp'', Single 5)]
   \<and> run_from_block_state_id
        (decode_arms [(''minecraft:torch'', Single 5), (''minecraft:lamp'', Single 5)]) 5
     = Inr (UnitValue ''Torch'')"
  by code_simp

text \<open>
  C5, amended. Whether the script fails does not depend on the codes: replacing every
  code \<open>i\<close> of a document by \<open>f i\<close>, for instance by one and the same code, gives a
  document on which the script fails exactly when it fails on the first. When it
  succeeds, the decoder has one arm per state of the document, in order, with the code
  of that state, repeated codes included, and decoding a code gives the value of the
  first arm with that code.
\<close>

theorem codes_are_not_checked:
  "(\<exists>e. generate (renumber f data) = Inl e) = (\<exists>e. generate data = Inl e)
   \<and> (\<forall>st. generate data = Inr st \<longrightarrow>
        (\<exists>cbs. check_blocks data = Inr cbs
           \<and> from_block_state_id_code st
               = from_block_state_id_code initial_state
                 @ concat (map render_decode_arm (decode_arms cbs))
                 @ ''_ => panic!(\"Unknown block state ID {}\", id),''
                 @ ''\<newline>}panic!(\"Invalid block state ID {}\", id);\<newline>}\<newline>''
           \<and> map decode_arm_id (decode_arms cbs) = state_ids data
           \<and> (\<forall>n. run_from_block_state_id (decode_arms cbs) n
                     = (case find (\<lambda>arm. decode_arm_id arm = n) (decode_arms cbs) of
                          None \<Rightarrow> Inl UnknownCode
                        | Some arm \<Rightarrow> Inr (decode_arm_value arm)))))"
proof (intro conjI allI impI)
  show "(\<exists>e. generate (renumber f data) = Inl e) = (\<exists>e. generate data = Inl e)"
    using generate_renumber [of f data] by (simp add: isl_def)
next
  fix st
  assume g: "generate data = Inr st"
  from generate_checked [OF g] obtain cbs where cbs: "check_blocks data = Inr cbs" ..
  show "\<exists>cbs. check_blocks data = Inr cbs
           \<and> from_block_state_id_code st
               = from_block_state_id_code initial_state
                 @ concat (map render_decode_arm (decode_arms cbs))
                 @ ''_ => panic!(\"Unknown block state ID {}\", id),''
                 @ ''\<newline>}panic!(\"Invalid block state ID {}\", id);\<newline>}\<newline>''
           \<and> map decode_arm_id (decode_arms cbs) = state_ids data
           \<and> (\<forall>n. run_from_block_state_id (decode_arms cbs) n
                     = (case find (\<lambda>arm. decode_arm_id arm = n) (decode_arms cbs) of
                          None \<Rightarrow> Inl UnknownCode
                        | Some arm \<Rightarrow> Inr (decode_arm_value arm)))"
    using cbs generate_decode_code [OF g cbs] check_blocks_ids [OF cbs]
      run_from_block_state_id_find by blast
qed

theorem codes_are_not_checked_witness:
  "generate [(''minecraft:torch'', torch), (''minecraft:lamp'', lamp)]
     = Inr (finish (emit_all [(''minecraft:torch'', Single 5), (''minecraft:lamp'', lamp_checked)]
                      initial_state))
   \<and> \<not> (\<exists>e. generate (renumber (\<lambda>i. 5) [(''minecraft:torch'', torch), (''minecraft:lamp'', lamp)])
               = Inl e)
   \<and> state_ids (renumber (\<lambda>i. 5) [(''minecraft:torch'', torch), (''minecraft:lamp'', lamp)])
     = [5, 5, 5, 5, 5]
   \<and> map decode_arm_id
        (decode_arms [(''minecraft:torch'', Single 5), (''minecraft:lamp'', lamp_checked)])
     = [5, 1, 2, 3, 4]
   \<and> run_from_block_state_id
        (decode_arms [(''minecraft:torch'', Single 5), (''minecraft:lamp'', lamp_checked)]) 5
     = Inr (UnitValue ''Torch'')"
proof -
  let ?data = "[(''minecraft:torch'', torch), (''minecraft:lamp'', lamp)]"
  let ?cbs = "[(''minecraft:torch'', Single 5), (''minecraft:lamp'', lamp_checked)]"
  have g: "generate ?data = Inr (finish (emit_all ?cbs initial_state))"
    by (simp only: generate_render torch_lamp_check sum.case)
  have i: "state_ids ?data = [5, 1, 2, 3, 4]" by code_simp
  have j: "state_ids (renumber (\<lambda>i. 5) ?data) = [5, 5, 5, 5, 5]" by code_simp
  have c: "block_camel ''minecraft:torch'' = ''Torch''" by code_simp
  have f: "find (\<lambda>arm. decode_arm_id arm = 5) (decode_arms ?cbs) = Some (DecodeUnit 5 ''Torch'')"
    by (simp add: decode_arms_def decode_arms_of_def c)
  note t = codes_are_not_checked [of "\<lambda>i. 5" ?data]
  from t g have 1: "\<not> (\<exists>e. generate (renumber (\<lambda>i. 5) ?data) = Inl e)" by simp
  from t g torch_lamp_check
  have 2: "map decode_arm_id (decode_arms ?cbs) = state_ids ?data
           \<and> run_from_block_state_id (decode_arms ?cbs) 5
             = (case find (\<lambda>arm. decode_arm_id arm = 5) (decode_arms ?cbs) of
                  None \<Rightarrow> Inl UnknownCode
                | Some arm \<Rightarrow> Inr (decode_arm_value arm))"
    by auto
  show ?thesis using g 1 2 i j f by simp
qed
section \<open>Encoding and decoding\<close>











end
